theory Spec2Isabelle
  imports Complex_Main
begin

section \<open>The reply pattern \<open>_reg_value\<close>\<close>

text \<open>
  A Python \<open>str\<close> is a sequence of code points. A \<open>char\<close> stands here for the code point
  of its number, 0 to 255: the characters of a reply that comes as bytes over the serial
  link (``the ASCII response of the instrument'' in the words of \<open>read\<close> and \<open>ask\<close>) and
  is decoded as ASCII or Latin-1. A string with a code point above 255 cannot be written
  here, and nothing below speaks about one. The pattern is compiled without \<open>re.ASCII\<close>,
  so \<open>\w\<close> and \<open>\s\<close> are the Unicode-aware classes of \<open>re\<close>: \<open>\w\<close> holds of the
  underscore and of every code point for which \<open>str.isalnum\<close> holds, \<open>\s\<close> of every code
  point for which \<open>str.isspace\<close> holds. On the code points below 256 these are the two
  tables that follow: beside the ASCII letters, digits and underscore, \<open>\w\<close> takes the
  letters and digits of the upper half (\<open>U+00AA\<close>, \<open>U+00B2\<close>, \<open>U+00B3\<close>, \<open>U+00B5\<close>,
  \<open>U+00B9\<close>, \<open>U+00BA\<close>, \<open>U+00BC\<close> to \<open>U+00BE\<close>, and \<open>U+00C0\<close> to \<open>U+00FF\<close> without the
  signs \<open>U+00D7\<close> and \<open>U+00F7\<close>); beside the ASCII white space 9 to 13 and 32, \<open>\s\<close>
  takes the separators 28 to 31, \<open>U+0085\<close> and \<open>U+00A0\<close>.
\<close>

datatype cclass = Word | Space | Lit char

definition isword :: "char \<Rightarrow> bool" where
  "isword c =
     (let n = (of_char c :: nat)
      in (48 \<le> n \<and> n \<le> 57) \<or> (65 \<le> n \<and> n \<le> 90) \<or> n = 95 \<or> (97 \<le> n \<and> n \<le> 122)
         \<or> n = 170 \<or> (178 \<le> n \<and> n \<le> 179) \<or> n = 181 \<or> (185 \<le> n \<and> n \<le> 186)
         \<or> (188 \<le> n \<and> n \<le> 190) \<or> (192 \<le> n \<and> n \<le> 214) \<or> (216 \<le> n \<and> n \<le> 246)
         \<or> (248 \<le> n \<and> n \<le> 255))"

definition isspace :: "char \<Rightarrow> bool" where
  "isspace c =
     (let n = (of_char c :: nat)
      in (9 \<le> n \<and> n \<le> 13) \<or> (28 \<le> n \<and> n \<le> 32) \<or> n = 133 \<or> n = 160)"

fun accepts :: "cclass \<Rightarrow> char \<Rightarrow> bool" where
  "accepts Word c = isword c"
| "accepts Space c = isspace c"
| "accepts (Lit l) c = (c = l)"

text \<open>
  A pattern is a sequence of items: one character of a class, or a greedy \<open>+\<close> repetition
  of a class; the flag says whether the item is a capturing group.
\<close>

datatype atom = One cclass | Plus cclass

type_synonym pattern = "(atom \<times> bool) list"

text \<open>
  \<open>match_here p s\<close> matches \<open>p\<close> at the start of \<open>s\<close> the way the backtracking engine of
  \<open>re\<close> does and returns the captured groups: a \<open>+\<close> first takes the longest run of its
  class, then gives characters back one at a time (down to one) until the rest of the pattern
  matches.
\<close>

fun match_here :: "pattern \<Rightarrow> string \<Rightarrow> string list option"
  and backtrack :: "cclass \<Rightarrow> bool \<Rightarrow> pattern \<Rightarrow> string \<Rightarrow> nat \<Rightarrow> string list option" where
  "match_here [] s = Some []"
| "match_here ((One k, g) # p) [] = None"
| "match_here ((One k, g) # p) (c # cs) =
     (if accepts k c
      then (case match_here p cs of
              None \<Rightarrow> None
            | Some gs \<Rightarrow> Some (if g then [c] # gs else gs))
      else None)"
| "match_here ((Plus k, g) # p) s = backtrack k g p s (length (takeWhile (accepts k) s))"
| "backtrack k g p s 0 = None"
| "backtrack k g p s (Suc n) =
     (case match_here p (drop (Suc n) s) of
        Some gs \<Rightarrow> Some (if g then take (Suc n) s # gs else gs)
      | None \<Rightarrow> backtrack k g p s n)"

text \<open>\<open>re.search\<close>: the match at the leftmost position of the string where there is one.\<close>

fun search :: "pattern \<Rightarrow> string \<Rightarrow> string list option" where
  "search p [] = match_here p []"
| "search p (c # cs) =
     (case match_here p (c # cs) of
        Some gs \<Rightarrow> Some gs
      | None \<Rightarrow> search p cs)"

text \<open>\<open>_reg_value = re.compile(r"\w+\s+=\s+(\w+)")\<close>\<close>

definition reg_value :: pattern where
  "reg_value =
     [(Plus Word, False), (Plus Space, False), (One (Lit (CHR ''='')), False),
      (Plus Space, False), (Plus Word, True)]"

text \<open>
  \<open>extract_value\<close>: the first group of the match when the pattern is found in the reply,
  the reply itself otherwise.
\<close>

definition extract_value :: "string \<Rightarrow> string" where
  "extract_value reply =
     (case search reg_value reply of
        Some gs \<Rightarrow> gs ! 0
      | None \<Rightarrow> reply)"

text \<open>
  What the documentation calls a reply of the form \<open>name = value\<close>, said without the
  matcher: somewhere in the reply stands a run of word characters, white space, an equals
  sign, white space and a run of word characters.
\<close>

definition has_assignment :: "string \<Rightarrow> bool" where
  "has_assignment r \<longleftrightarrow>
     (\<exists>pre name sp1 sp2 val rest.
        r = pre @ name @ sp1 @ ''='' @ sp2 @ val @ rest \<and>
        name \<noteq> [] \<and> list_all isword name \<and>
        sp1 \<noteq> [] \<and> list_all isspace sp1 \<and>
        sp2 \<noteq> [] \<and> list_all isspace sp2 \<and>
        val \<noteq> [] \<and> list_all isword val)"

text \<open>
  \<open>starts_assignment s val rest\<close>: the string \<open>s\<close> begins with an assignment whose value
  token, the whole run of word characters after the white space, is \<open>val\<close>, and \<open>rest\<close> is
  what follows the value token. \<open>tails\<close> lists the non-empty suffixes of a string, the
  longest first.
\<close>

definition starts_assignment :: "string \<Rightarrow> string \<Rightarrow> string \<Rightarrow> bool" where
  "starts_assignment s val rest \<longleftrightarrow>
     (\<exists>name sp1 sp2.
        s = name @ sp1 @ ''='' @ sp2 @ val @ rest \<and>
        name \<noteq> [] \<and> list_all isword name \<and>
        sp1 \<noteq> [] \<and> list_all isspace sp1 \<and>
        sp2 \<noteq> [] \<and> list_all isspace sp2 \<and>
        val \<noteq> [] \<and> list_all isword val \<and>
        (rest = [] \<or> \<not> isword (hd rest)))"

fun tails :: "'a list \<Rightarrow> 'a list list" where
  "tails [] = []"
| "tails (x # xs) = (x # xs) # tails xs"

text \<open>The class that the first item of a pattern asks for, and the tails of \<open>reg_value\<close>.\<close>

fun first_class :: "pattern \<Rightarrow> cclass option" where
  "first_class [] = None"
| "first_class ((One k, g) # p) = Some k"
| "first_class ((Plus k, g) # p) = Some k"

definition tail4 :: pattern where
  "tail4 = [(Plus Word, True)]"

definition tail3 :: pattern where
  "tail3 = (Plus Space, False) # tail4"

definition tail2 :: pattern where
  "tail2 = (One (Lit (CHR ''='')), False) # tail3"

definition tail1 :: pattern where
  "tail1 = (Plus Space, False) # tail2"

section \<open>The transport\<close>

text \<open>
  Modelled from the spec: the base class \<open>VISAAdapter\<close> and the pyvisa resource behind
  \<open>self.connection\<close> are not part of the sources. The specification describes them as a
  line transport that sends a frame (the command followed by the write terminator), reads
  one line (blocking until the terminator or a timeout), discards its buffered input, and
  carries the baud rate, the terminators and the query delay.

  The link and the instrument are a script: its \<open>n\<close>-th entry says what becomes of the
  \<open>n\<close>-th frame handed to the transport, either the link refuses it (the write raises and
  nothing is sent) or it is sent and the instrument answers with the lines of the entry; a
  frame sent when the script is used up gets no answer. \<open>inbuf\<close> holds the lines that have
  arrived and are not read yet; a read on an empty buffer times out. \<open>events\<close> is not a
  field of the Python objects: it is the record of what was done on the transport, in
  order, kept to state what the adapter does.

  The query delay is a Python float: a finite number, an infinity or NaN.
\<close>

datatype error =
    ValueError string
  | AttributeError string
  | OverflowError
  | OSError
  | VisaIOError

datatype pyfloat = Finite real | PosInf | NegInf | NaN

datatype frame_outcome = Answers "string list" | WriteError

datatype event =
    Open string
  | SetBaudRate int
  | WriteLine string
  | ReadLine string
  | FlushInput
  | Sleep real

record line_transport =
  baud_rate :: int
  query_delay :: pyfloat
  read_termination :: string
  write_termination :: string
  inbuf :: "string list"
  script :: "frame_outcome list"
  time_limit :: real
  sleep_limit :: real
  events :: "event list"

definition refused :: "frame_outcome list \<Rightarrow> bool" where
  "refused sc = (case sc of WriteError # _ \<Rightarrow> True | _ \<Rightarrow> False)"

definition answer :: "frame_outcome list \<Rightarrow> string list" where
  "answer sc = (case sc of Answers ls # _ \<Rightarrow> ls | _ \<Rightarrow> [])"

definition transport_write ::
  "string \<Rightarrow> line_transport \<Rightarrow> (error + unit) \<times> line_transport" where
  "transport_write command t =
     (if refused (script t)
      then (Inl VisaIOError, t\<lparr>script := tl (script t)\<rparr>)
      else (Inr (),
            t\<lparr>events := events t @ [WriteLine (command @ write_termination t)],
              inbuf := inbuf t @ answer (script t),
              script := tl (script t)\<rparr>))"

definition transport_read :: "line_transport \<Rightarrow> (error + string) \<times> line_transport" where
  "transport_read t =
     (case inbuf t of
        [] \<Rightarrow> (Inl VisaIOError, t)
      | l # ls \<Rightarrow> (Inr l, t\<lparr>inbuf := ls, events := events t @ [ReadLine l]\<rparr>))"

definition transport_flush :: "line_transport \<Rightarrow> line_transport" where
  "transport_flush t = t\<lparr>inbuf := [], events := events t @ [FlushInput]\<rparr>"

text \<open>
  \<open>time.sleep\<close>, in the order in which the interpreter decides: NaN is refused with a
  \<open>ValueError\<close>; a number that does not fit the interpreter's time type (an infinity, or
  a finite number whose size is above \<open>time_limit\<close>) with an \<open>OverflowError\<close>; a negative
  number with a \<open>ValueError\<close>; a number that fits and that the system call still refuses
  (above \<open>sleep_limit\<close>) with an \<open>OSError\<close>. Otherwise the call waits at least that long.
  The two limits belong to the platform (about \<open>9.2e9\<close> seconds where the time type counts
  nanoseconds in 64 bits), which is why they are fields of the transport and not numbers
  here; the messages of \<open>OverflowError\<close> and \<open>OSError\<close> differ between platforms and are
  left out.
\<close>

definition transport_sleep ::
  "pyfloat \<Rightarrow> line_transport \<Rightarrow> (error + unit) \<times> line_transport" where
  "transport_sleep secs t =
     (case secs of
        NaN \<Rightarrow> (Inl (ValueError ''Invalid value NaN (not a number)''), t)
      | PosInf \<Rightarrow> (Inl OverflowError, t)
      | NegInf \<Rightarrow> (Inl OverflowError, t)
      | Finite d \<Rightarrow>
          if time_limit t < \<bar>d\<bar> then (Inl OverflowError, t)
          else if d < 0 then (Inl (ValueError ''sleep length must be non-negative''), t)
          else if sleep_limit t < d then (Inl OSError, t)
          else (Inr (), t\<lparr>events := events t @ [Sleep d]\<rparr>))"

section \<open>The adapter\<close>

text \<open>
  The fields of a \<open>TopticaAdapter\<close>: its connection, the reply hook handed to the base
  class, and \<open>lastcommand\<close>, an attribute that does not exist before the first \<open>write\<close>.
\<close>

record adapter =
  connection :: line_transport
  preprocess_reply :: "string \<Rightarrow> string"
  lastcommand :: "string option"

text \<open>\<open>super().write\<close>, \<open>super().read\<close>, \<open>self.flush\<close> and \<open>time.sleep\<close> on the adapter.\<close>

definition super_write :: "string \<Rightarrow> adapter \<Rightarrow> (error + unit) \<times> adapter" where
  "super_write command a =
     (case transport_write command (connection a) of (r, t) \<Rightarrow> (r, a\<lparr>connection := t\<rparr>))"

definition super_read :: "adapter \<Rightarrow> (error + string) \<times> adapter" where
  "super_read a =
     (case transport_read (connection a) of (r, t) \<Rightarrow> (r, a\<lparr>connection := t\<rparr>))"

definition flush :: "adapter \<Rightarrow> adapter" where
  "flush a = a\<lparr>connection := transport_flush (connection a)\<rparr>"

definition sleep :: "pyfloat \<Rightarrow> adapter \<Rightarrow> (error + unit) \<times> adapter" where
  "sleep d a =
     (case transport_sleep d (connection a) of (r, t) \<Rightarrow> (r, a\<lparr>connection := t\<rparr>))"

text \<open>The two messages, as the f-strings build them.\<close>

definition ack_message :: "string \<Rightarrow> string \<Rightarrow> string" where
  "ack_message lastcmd reply =
     ''TopticaAdapter: Error after command '' @ [CHR 0x27] @ lastcmd @ [CHR 0x27]
       @ '' with message '' @ [CHR 0x27] @ reply @ [CHR 0x27]"

definition echo_message :: "string \<Rightarrow> string \<Rightarrow> string" where
  "echo_message command reply =
     ''TopticaAdapter.write: Error after command '' @ [CHR 0x27] @ command @ [CHR 0x27]
       @ '' with message '' @ [CHR 0x27] @ reply @ [CHR 0x27]"

text \<open>
  \<open>check_acknowledgement\<close>: a reply other than \<open>[OK]\<close> flushes the read buffer and then
  raises; building the message reads \<open>self.lastcommand\<close>.
\<close>

definition check_acknowledgement :: "string \<Rightarrow> adapter \<Rightarrow> (error + unit) \<times> adapter" where
  "check_acknowledgement reply a =
     (if reply \<noteq> ''[OK]''
      then (let a1 = flush a
            in case lastcommand a1 of
                 None \<Rightarrow> (Inl (AttributeError ''lastcommand''), a1)
               | Some c \<Rightarrow> (Inl (ValueError (ack_message c reply)), a1))
      else (Inr (), a))"

definition read :: "adapter \<Rightarrow> (error + string) \<times> adapter" where
  "read a =
     (case super_read a of
        (Inl e, a1) \<Rightarrow> (Inl e, a1)
      | (Inr reply, a1) \<Rightarrow>
          (case super_read a1 of
             (Inl e, a2) \<Rightarrow> (Inl e, a2)
           | (Inr ack, a2) \<Rightarrow>
               (case check_acknowledgement ack a2 of
                  (Inl e, a3) \<Rightarrow> (Inl e, a3)
                | (Inr _, a3) \<Rightarrow> (Inr reply, a3))))"

text \<open>\<open>write\<close>; the name is taken in Isabelle, so the method is called \<open>write_cmd\<close> here.\<close>

definition write_cmd :: "string \<Rightarrow> bool \<Rightarrow> adapter \<Rightarrow> (error + unit) \<times> adapter" where
  "write_cmd command check_ack a =
     (let a1 = a\<lparr>lastcommand := Some command\<rparr>
      in case super_write command a1 of
           (Inl e, a2) \<Rightarrow> (Inl e, a2)
         | (Inr _, a2) \<Rightarrow>
             (case super_read a2 of
                (Inl e, a3) \<Rightarrow> (Inl e, a3)
              | (Inr reply, a3) \<Rightarrow>
                  if reply \<noteq> ''''
                  then (Inl (ValueError (echo_message command reply)), a3)
                  else if check_ack
                    then (case super_read a3 of
                            (Inl e, a4) \<Rightarrow> (Inl e, a4)
                          | (Inr ack, a4) \<Rightarrow> check_acknowledgement ack a4)
                    else (Inr (), a3)))"

definition ask :: "string \<Rightarrow> adapter \<Rightarrow> (error + string) \<times> adapter" where
  "ask command a =
     (case write_cmd command False a of
        (Inl e, a1) \<Rightarrow> (Inl e, a1)
      | (Inr _, a1) \<Rightarrow>
          (case sleep (query_delay (connection a1)) a1 of
             (Inl e, a2) \<Rightarrow> (Inl e, a2)
           | (Inr _, a2) \<Rightarrow> read a2))"

text \<open>
  The keyword arguments that \<open>__init__\<close> looks at, and \<open>dict.setdefault\<close> on one of them.
\<close>

record kwargs =
  kw_preprocess_reply :: "(string \<Rightarrow> string) option"
  kw_read_termination :: "string option"
  kw_write_termination :: "string option"

definition setdefault :: "'a option \<Rightarrow> 'a \<Rightarrow> 'a" where
  "setdefault v d = (case v of None \<Rightarrow> d | Some x \<Rightarrow> x)"

text \<open>
  Modelled from the spec: \<open>VISAAdapter.__init__\<close>, which is not part of the sources, opens
  the transport named by the port with the terminators it is given and keeps the reply
  hook. \<open>resource\<close> is the transport as it is found: the baud rate that the transport layer
  chose, its query delay, the input that is waiting, the link and the instrument behind it.
\<close>

definition super_init ::
  "string \<Rightarrow> (string \<Rightarrow> string) \<Rightarrow> string \<Rightarrow> string \<Rightarrow> line_transport \<Rightarrow> adapter" where
  "super_init port hook rt wt resource =
     \<lparr>connection = resource\<lparr>read_termination := rt, write_termination := wt,
                              events := events resource @ [Open port]\<rparr>,
      preprocess_reply = hook,
      lastcommand = None\<rparr>"

text \<open>\<open>TopticaAdapter.__init__\<close>; an exception leaves no adapter to the caller.\<close>

definition init ::
  "string \<Rightarrow> int \<Rightarrow> kwargs \<Rightarrow> line_transport \<Rightarrow> (error + unit) \<times> adapter" where
  "init port baud kw resource =
     (let hook = setdefault (kw_preprocess_reply kw) extract_value;
          rt = setdefault (kw_read_termination kw) [CHR 0x0D, CHR 0x0A];
          wt = setdefault (kw_write_termination kw) [CHR 0x0D, CHR 0x0A];
          a0 = super_init port hook rt wt resource;
          a1 = a0\<lparr>connection := (connection a0)
                  \<lparr>baud_rate := baud,
                   events := events (connection a0) @ [SetBaudRate baud]\<rparr>\<rparr>
      in case super_write ''echo off'' a1 of
           (Inl e, a2) \<Rightarrow> (Inl e, a2)
         | (Inr _, a2) \<Rightarrow>
             (case super_write ''prom off'' a2 of
                (Inl e, a3) \<Rightarrow> (Inl e, a3)
              | (Inr _, a3) \<Rightarrow>
                  (case sleep (Finite 0.04) a3 of
                     (Inl e, a4) \<Rightarrow> (Inl e, a4)
                   | (Inr _, a4) \<Rightarrow>
                       (case ask ''talk usual'' (flush a4) of
                          (Inl e, a5) \<Rightarrow> (Inl e, a5)
                        | (Inr _, a5) \<Rightarrow> (Inr (), a5)))))"

text \<open>
  The lines that can be read once the next frame has been handed to the transport: those
  that wait in the buffer, then the instrument's answer to that frame; none when the link
  refuses the frame.
\<close>

definition pending :: "adapter \<Rightarrow> string list" where
  "pending a =
     (if refused (script (connection a)) then []
      else inbuf (connection a) @ answer (script (connection a)))"

text \<open>
  A constructed adapter on the bench, for the examples: default settings, the limits of
  \<open>time.sleep\<close> at \<open>9.2e9\<close> seconds, the query delay \<open>delay\<close>, \<open>buffered\<close> lines waiting,
  and a link and an instrument that behave as \<open>outcomes\<close> says. \<open>bench\<close> is the bench with
  a query delay of zero and a link that takes every frame.
\<close>

definition bench_with :: "pyfloat \<Rightarrow> string list \<Rightarrow> frame_outcome list \<Rightarrow> adapter" where
  "bench_with delay buffered outcomes =
     \<lparr>connection =
        \<lparr>baud_rate = 115200, query_delay = delay,
         read_termination = [CHR 0x0D, CHR 0x0A], write_termination = [CHR 0x0D, CHR 0x0A],
         inbuf = buffered, script = outcomes,
         time_limit = 9200000000, sleep_limit = 9200000000, events = []\<rparr>,
      preprocess_reply = extract_value,
      lastcommand = Some ''talk usual''\<rparr>"

definition bench :: "string list \<Rightarrow> string list list \<Rightarrow> adapter" where
  "bench buffered replies = bench_with (Finite 0) buffered (map Answers replies)"

text \<open>A serial port as it is found before the adapter is built, for the examples.\<close>

definition fresh_port :: "pyfloat \<Rightarrow> string list \<Rightarrow> frame_outcome list \<Rightarrow> line_transport" where
  "fresh_port delay buffered outcomes =
     \<lparr>baud_rate = 9600, query_delay = delay, read_termination = [], write_termination = [],
      inbuf = buffered, script = outcomes,
      time_limit = 9200000000, sleep_limit = 9200000000, events = []\<rparr>"

definition no_kwargs :: kwargs where
  "no_kwargs =
     \<lparr>kw_preprocess_reply = None, kw_read_termination = None, kw_write_termination = None\<rparr>"

text \<open>
  The adapter as it stands when the constructor starts to talk to the instrument: opened
  with the settings that the keyword arguments leave, the baud rate set.
\<close>

definition configured :: "string \<Rightarrow> int \<Rightarrow> kwargs \<Rightarrow> line_transport \<Rightarrow> adapter" where
  "configured port baud kw resource =
     \<lparr>connection = resource
        \<lparr>baud_rate := baud,
         read_termination := setdefault (kw_read_termination kw) [CHR 0x0D, CHR 0x0A],
         write_termination := setdefault (kw_write_termination kw) [CHR 0x0D, CHR 0x0A],
         events := events resource @ [Open port, SetBaudRate baud]\<rparr>,
      preprocess_reply = setdefault (kw_preprocess_reply kw) extract_value,
      lastcommand = None\<rparr>"

section \<open>Lemmas about the pattern\<close>

lemma match_here_first_rejects:
  assumes "first_class p = Some q" and "\<not> accepts q c"
  shows "match_here p (c # cs) = None"
  using assms by (cases p rule: first_class.cases) simp_all

lemma drop_in_takeWhile:
  assumes "n < length (takeWhile P s)"
  shows "\<exists>c cs. drop n s = c # cs \<and> P c"
proof -
  from assms have n: "n < length s"
    using length_takeWhile_le [of P s] by simp
  have "takeWhile P s ! n \<in> set (takeWhile P s)"
    using assms by (rule nth_mem)
  then have "P (takeWhile P s ! n)"
    by (rule set_takeWhileD [THEN conjunct2])
  then have "P (s ! n)"
    using assms by (simp only: takeWhile_nth)
  moreover from n have "drop n s = s ! n # drop (Suc n) s"
    by (simp only: Cons_nth_drop_Suc)
  ultimately show ?thesis by blast
qed

lemma backtrack_below:
  assumes q: "first_class p = Some q" and dis: "\<And>c. accepts k c \<Longrightarrow> \<not> accepts q c"
  shows "n < length (takeWhile (accepts k) s) \<Longrightarrow> backtrack k g p s n = None"
proof (induction n)
  case 0
  show ?case by (simp only: backtrack.simps)
next
  case (Suc n)
  from drop_in_takeWhile [OF Suc.prems] obtain c cs
    where eq: "drop (Suc n) s = c # cs" and "accepts k c" by blast
  then have "match_here p (c # cs) = None"
    using match_here_first_rejects [OF q] dis by blast
  then have mh: "match_here p (drop (Suc n) s) = None"
    by (simp only: eq)
  from Suc.prems have "n < length (takeWhile (accepts k) s)" by simp
  then have "backtrack k g p s n = None"
    by (rule Suc.IH)
  then show ?case
    by (simp only: backtrack.simps mh option.simps)
qed

lemma match_here_Plus:
  assumes q: "first_class p = Some q" and dis: "\<And>c. accepts k c \<Longrightarrow> \<not> accepts q c"
  shows "match_here ((Plus k, g) # p) s =
     (if takeWhile (accepts k) s = [] then None
      else (case match_here p (dropWhile (accepts k) s) of
              None \<Rightarrow> None
            | Some gs \<Rightarrow> Some (if g then takeWhile (accepts k) s # gs else gs)))"
proof (cases "length (takeWhile (accepts k) s)")
  case 0
  then have "takeWhile (accepts k) s = []" by simp
  then show ?thesis by simp
next
  case (Suc m)
  have "m < length (takeWhile (accepts k) s)"
    by (simp only: Suc lessI)
  then have b: "backtrack k g p s m = None"
    using q dis by (intro backtrack_below) blast+
  have d: "drop (Suc m) s = dropWhile (accepts k) s"
    using dropWhile_eq_drop [of "accepts k" s] unfolding Suc by (rule sym)
  have t: "take (Suc m) s = takeWhile (accepts k) s"
    using takeWhile_eq_take [of "accepts k" s] unfolding Suc by (rule sym)
  have ne: "takeWhile (accepts k) s \<noteq> []"
    using Suc by (cases "takeWhile (accepts k) s") simp_all
  have "match_here ((Plus k, g) # p) s = backtrack k g p s (Suc m)"
    by (simp only: match_here.simps Suc)
  also have "\<dots> = (case match_here p (dropWhile (accepts k) s) of
        Some gs \<Rightarrow> Some (if g then takeWhile (accepts k) s # gs else gs)
      | None \<Rightarrow> None)"
    by (simp only: backtrack.simps d t b)
  finally show ?thesis
    using ne by (simp split: option.splits)
qed

lemma match_here_Plus_last:
  "match_here [(Plus k, g)] s =
     (if takeWhile (accepts k) s = [] then None
      else Some (if g then [takeWhile (accepts k) s] else []))"
proof (cases "length (takeWhile (accepts k) s)")
  case 0
  then have "takeWhile (accepts k) s = []" by simp
  then show ?thesis by simp
next
  case (Suc m)
  have t: "take (Suc m) s = takeWhile (accepts k) s"
    using takeWhile_eq_take [of "accepts k" s] unfolding Suc by (rule sym)
  have ne: "takeWhile (accepts k) s \<noteq> []"
    using Suc by (cases "takeWhile (accepts k) s") simp_all
  have "match_here [(Plus k, g)] s = backtrack k g [] s (Suc m)"
    by (simp only: match_here.simps Suc)
  also have "\<dots> = Some (if g then [takeWhile (accepts k) s] else [])"
    by (simp only: backtrack.simps match_here.simps t option.simps)
  finally show ?thesis
    by (simp only: ne if_False)
qed

lemma word_not_space: "accepts Word c \<Longrightarrow> \<not> accepts Space c"
  by (auto simp: isword_def isspace_def Let_def)

lemma space_not_word: "accepts Space c \<Longrightarrow> \<not> accepts Word c"
  by (auto simp: isword_def isspace_def Let_def)

lemma space_not_eq: "accepts Space c \<Longrightarrow> \<not> accepts (Lit (CHR ''='')) c"
  by (auto simp: isspace_def Let_def)

lemma match_here_reg_value:
  "match_here reg_value s =
     (if takeWhile (accepts Word) s = [] then None
      else if takeWhile (accepts Space) (dropWhile (accepts Word) s) = [] then None
      else (case dropWhile (accepts Space) (dropWhile (accepts Word) s) of
              [] \<Rightarrow> None
            | c # r3 \<Rightarrow>
                if c = CHR ''=''
                then (if takeWhile (accepts Space) r3 = [] then None
                      else if takeWhile (accepts Word) (dropWhile (accepts Space) r3) = []
                        then None
                        else Some [takeWhile (accepts Word) (dropWhile (accepts Space) r3)])
                else None))"
proof -
  have f4: "first_class tail4 = Some Word" by (simp add: tail4_def)
  have f2: "first_class tail2 = Some (Lit (CHR ''=''))" by (simp add: tail2_def)
  have f1: "first_class tail1 = Some Space" by (simp add: tail1_def)
  have r: "reg_value = (Plus Word, False) # tail1"
    by (simp add: reg_value_def tail1_def tail2_def tail3_def tail4_def)
  have t3: "match_here tail3 s = (if takeWhile (accepts Space) s = [] then None
      else match_here tail4 (dropWhile (accepts Space) s))" for s
    unfolding tail3_def
    by (simp only: match_here_Plus [where k = Space, OF f4 space_not_word] if_False
          option.case_eq_if option.collapse split: if_splits) simp
  have t1: "match_here tail1 s = (if takeWhile (accepts Space) s = [] then None
      else match_here tail2 (dropWhile (accepts Space) s))" for s
    unfolding tail1_def
    by (simp only: match_here_Plus [where k = Space, OF f2 space_not_eq] if_False
          option.case_eq_if option.collapse split: if_splits) simp
  have t0: "match_here reg_value s = (if takeWhile (accepts Word) s = [] then None
      else match_here tail1 (dropWhile (accepts Word) s))" for s
    unfolding r
    by (simp only: match_here_Plus [where k = Word, OF f1 word_not_space] if_False
          option.case_eq_if option.collapse split: if_splits) simp
  have t2: "match_here tail2 s = (case s of [] \<Rightarrow> None | c # r3 \<Rightarrow>
      if c = CHR ''='' then match_here tail3 r3 else None)" for s
    by (cases s) (simp_all add: tail2_def split: option.splits)
  have t4: "match_here tail4 s = (if takeWhile (accepts Word) s = [] then None
      else Some [takeWhile (accepts Word) s])" for s
    by (simp only: tail4_def match_here_Plus_last if_True)
  show ?thesis
    by (simp only: t0 t1 t2 t3 t4)
qed

lemma accepts_Word_eq: "accepts Word = isword"
  by (rule ext) simp

lemma accepts_Space_eq: "accepts Space = isspace"
  by (rule ext) simp

lemma isword_not_isspace: "isword c \<Longrightarrow> \<not> isspace c"
  by (auto simp: isword_def isspace_def Let_def)

lemma isword_not_eq: "isword c \<Longrightarrow> c \<noteq> CHR ''=''"
  by (auto simp: isword_def Let_def)

lemma isspace_not_eq: "isspace c \<Longrightarrow> c \<noteq> CHR ''=''"
  by (auto simp: isspace_def Let_def)

lemma takeWhile_run:
  assumes "list_all P xs" and "ys = [] \<or> \<not> P (hd ys)"
  shows "takeWhile P (xs @ ys) = xs" and "dropWhile P (xs @ ys) = ys"
proof -
  from assms(2) have t: "takeWhile P ys = []" and d: "dropWhile P ys = ys"
    by (cases ys; auto)+
  from assms(1) have a: "\<And>x. x \<in> set xs \<Longrightarrow> P x"
    by (simp add: list_all_iff)
  show "takeWhile P (xs @ ys) = xs"
    using a t by (simp add: takeWhile_append2)
  show "dropWhile P (xs @ ys) = ys"
    using a d by (simp add: dropWhile_append2)
qed

text \<open>What a match at the start of \<open>s\<close> looks like.\<close>

lemma match_here_reg_value_Some:
  assumes "match_here reg_value s = Some gs"
  obtains r3 where
    "takeWhile isword s \<noteq> []"
    "takeWhile isspace (dropWhile isword s) \<noteq> []"
    "dropWhile isspace (dropWhile isword s) = CHR ''='' # r3"
    "takeWhile isspace r3 \<noteq> []"
    "takeWhile isword (dropWhile isspace r3) \<noteq> []"
    "gs = [takeWhile isword (dropWhile isspace r3)]"
  using assms unfolding match_here_reg_value accepts_Word_eq accepts_Space_eq
  by (auto split: if_splits list.splits)

lemma match_here_reg_value_decomp:
  assumes "match_here reg_value s = Some gs"
  shows "\<exists>name sp1 sp2 val rest.
        s = name @ sp1 @ ''='' @ sp2 @ val @ rest \<and>
        name \<noteq> [] \<and> list_all isword name \<and>
        sp1 \<noteq> [] \<and> list_all isspace sp1 \<and>
        sp2 \<noteq> [] \<and> list_all isspace sp2 \<and>
        val \<noteq> [] \<and> list_all isword val \<and> gs = [val]"
proof -
  from assms obtain r3 where h:
    "takeWhile isword s \<noteq> []"
    "takeWhile isspace (dropWhile isword s) \<noteq> []"
    "dropWhile isspace (dropWhile isword s) = CHR ''='' # r3"
    "takeWhile isspace r3 \<noteq> []"
    "takeWhile isword (dropWhile isspace r3) \<noteq> []"
    "gs = [takeWhile isword (dropWhile isspace r3)]"
    by (rule match_here_reg_value_Some)
  let ?name = "takeWhile isword s"
  let ?sp1 = "takeWhile isspace (dropWhile isword s)"
  let ?sp2 = "takeWhile isspace r3"
  let ?val = "takeWhile isword (dropWhile isspace r3)"
  let ?rest = "dropWhile isword (dropWhile isspace r3)"
  have "s = ?name @ dropWhile isword s" by simp
  also have "dropWhile isword s = ?sp1 @ dropWhile isspace (dropWhile isword s)" by simp
  also have "dropWhile isspace (dropWhile isword s) = ''='' @ r3" using h(3) by simp
  also have "r3 = ?sp2 @ dropWhile isspace r3" by simp
  also have "dropWhile isspace r3 = ?val @ ?rest" by simp
  finally have s: "s = ?name @ ?sp1 @ ''='' @ ?sp2 @ ?val @ ?rest" .
  have "list_all isword ?name" "list_all isspace ?sp1" "list_all isspace ?sp2" "list_all isword ?val"
    by (auto simp: list_all_iff dest: set_takeWhileD)
  with s h show ?thesis by blast
qed

lemma search_Some:
  "search p r = Some gs \<Longrightarrow> \<exists>pre t. r = pre @ t \<and> match_here p t = Some gs"
proof (induction r)
  case Nil
  then show ?case by simp
next
  case (Cons c cs)
  show ?case
  proof (cases "match_here p (c # cs)")
    case None
    with Cons.prems have "search p cs = Some gs" by simp
    then obtain pre t where "cs = pre @ t" "match_here p t = Some gs"
      using Cons.IH by blast
    then have "c # cs = (c # pre) @ t \<and> match_here p t = Some gs" by simp
    then show ?thesis by blast
  next
    case (Some a)
    with Cons.prems have "c # cs = [] @ (c # cs) \<and> match_here p (c # cs) = Some gs" by simp
    then show ?thesis by blast
  qed
qed

lemma search_reg_value_Some:
  assumes "search reg_value r = Some gs"
  shows "has_assignment r" and "\<exists>val. gs = [val] \<and> val \<noteq> [] \<and> list_all isword val"
proof -
  from search_Some [OF assms] obtain pre t
    where r: "r = pre @ t" and m: "match_here reg_value t = Some gs" by blast
  from match_here_reg_value_decomp [OF m] obtain name sp1 sp2 val rest where d:
    "t = name @ sp1 @ ''='' @ sp2 @ val @ rest" "name \<noteq> []" "list_all isword name"
    "sp1 \<noteq> []" "list_all isspace sp1" "sp2 \<noteq> []" "list_all isspace sp2"
    "val \<noteq> []" "list_all isword val" "gs = [val]"
    by blast
  from r d show "has_assignment r"
    unfolding has_assignment_def by blast
  from d show "\<exists>val. gs = [val] \<and> val \<noteq> [] \<and> list_all isword val" by blast
qed

lemma has_assignment_eq_sign: "has_assignment r \<Longrightarrow> CHR ''='' \<in> set r"
  unfolding has_assignment_def by auto

text \<open>A match at the start of a string that begins with an assignment.\<close>

lemma match_here_assignment:
  assumes "name \<noteq> []" "list_all isword name" "sp1 \<noteq> []" "list_all isspace sp1"
    "sp2 \<noteq> []" "list_all isspace sp2" "val \<noteq> []" "list_all isword val"
  shows "match_here reg_value (name @ sp1 @ ''='' @ sp2 @ val @ rest)
           = Some [takeWhile isword (val @ rest)]"
proof -
  let ?s = "name @ sp1 @ ''='' @ sp2 @ val @ rest"
  from assms have hs1: "\<not> isword (hd sp1)" and hs2: "\<not> isword (hd sp2)" and hv: "\<not> isspace (hd val)"
    by (cases sp1; cases sp2; cases val; auto dest: isword_not_isspace)+
  have t1: "takeWhile isword ?s = name" and d1: "dropWhile isword ?s = sp1 @ ''='' @ sp2 @ val @ rest"
    using takeWhile_run [of isword name "sp1 @ ''='' @ sp2 @ val @ rest"] assms hs1 by auto
  have t2: "takeWhile isspace (sp1 @ ''='' @ sp2 @ val @ rest) = sp1"
    and d2: "dropWhile isspace (sp1 @ ''='' @ sp2 @ val @ rest) = ''='' @ sp2 @ val @ rest"
    using takeWhile_run [of isspace sp1 "''='' @ sp2 @ val @ rest"] assms
    by (auto dest: isspace_not_eq)
  have t3: "takeWhile isspace (sp2 @ val @ rest) = sp2"
    and d3: "dropWhile isspace (sp2 @ val @ rest) = val @ rest"
    using takeWhile_run [of isspace sp2 "val @ rest"] assms hv by auto
  have ne: "takeWhile isword (val @ rest) \<noteq> []"
    using assms by (cases val) auto
  show ?thesis
    unfolding match_here_reg_value accepts_Word_eq accepts_Space_eq t1 d1 t2 d2
    using assms ne by (simp add: t3 d3)
qed

lemma search_append_Some:
  "match_here p t \<noteq> None \<Longrightarrow> search p (pre @ t) \<noteq> None"
proof (induction pre)
  case Nil
  then show ?case by (cases t) auto
next
  case (Cons c pre)
  then show ?case by (auto split: option.splits)
qed

lemma has_assignment_search: "has_assignment r \<Longrightarrow> search reg_value r \<noteq> None"
  unfolding has_assignment_def
  using match_here_assignment search_append_Some
  by (metis option.distinct(1))

text \<open>
  A match at the start of a string is an assignment that starts there, with the whole run
  of word characters as its value; the search returns the match at the leftmost position
  where one starts.
\<close>

lemma starts_assignmentI:
  assumes "name \<noteq> []" "list_all isword name" "sp1 \<noteq> []" "list_all isspace sp1"
    "sp2 \<noteq> []" "list_all isspace sp2" "val \<noteq> []" "list_all isword val"
    "rest = [] \<or> \<not> isword (hd rest)"
  shows "starts_assignment (name @ sp1 @ ''='' @ sp2 @ val @ rest) val rest"
  unfolding starts_assignment_def using assms by blast

lemma match_here_starts:
  assumes "match_here reg_value s = Some gs"
  shows "\<exists>val rest. gs = [val] \<and> starts_assignment s val rest"
proof -
  from assms obtain r3 where h:
    "takeWhile isword s \<noteq> []"
    "takeWhile isspace (dropWhile isword s) \<noteq> []"
    "dropWhile isspace (dropWhile isword s) = CHR ''='' # r3"
    "takeWhile isspace r3 \<noteq> []"
    "takeWhile isword (dropWhile isspace r3) \<noteq> []"
    "gs = [takeWhile isword (dropWhile isspace r3)]"
    by (rule match_here_reg_value_Some)
  let ?name = "takeWhile isword s"
  let ?sp1 = "takeWhile isspace (dropWhile isword s)"
  let ?sp2 = "takeWhile isspace r3"
  let ?val = "takeWhile isword (dropWhile isspace r3)"
  let ?rest = "dropWhile isword (dropWhile isspace r3)"
  have "s = ?name @ dropWhile isword s" by simp
  also have "dropWhile isword s = ?sp1 @ dropWhile isspace (dropWhile isword s)" by simp
  also have "dropWhile isspace (dropWhile isword s) = ''='' @ r3" using h(3) by simp
  also have "r3 = ?sp2 @ dropWhile isspace r3" by simp
  also have "dropWhile isspace r3 = ?val @ ?rest" by simp
  finally have s: "s = ?name @ ?sp1 @ ''='' @ ?sp2 @ ?val @ ?rest" .
  have a: "list_all isword ?name" "list_all isspace ?sp1" "list_all isspace ?sp2"
    "list_all isword ?val"
    by (auto simp: list_all_iff dest: set_takeWhileD)
  have r: "?rest = [] \<or> \<not> isword (hd ?rest)"
    using hd_dropWhile [of isword "dropWhile isspace r3"] by blast
  from s h a r have "starts_assignment s ?val ?rest"
    unfolding starts_assignment_def by blast
  with h(6) show ?thesis by blast
qed

lemma starts_match_here:
  assumes "starts_assignment s val rest"
  shows "match_here reg_value s = Some [val]"
proof -
  from assms obtain name sp1 sp2 where d:
    "s = name @ sp1 @ ''='' @ sp2 @ val @ rest" "name \<noteq> []" "list_all isword name"
    "sp1 \<noteq> []" "list_all isspace sp1" "sp2 \<noteq> []" "list_all isspace sp2"
    "val \<noteq> []" "list_all isword val" "rest = [] \<or> \<not> isword (hd rest)"
    unfolding starts_assignment_def by blast
  have "takeWhile isword (val @ rest) = val"
    using takeWhile_run(1) [OF d(9) d(10)] .
  with match_here_assignment [OF d(2-9), of rest] d(1) show ?thesis by simp
qed

lemma no_start_no_match:
  "(\<And>v w. \<not> starts_assignment s v w) \<Longrightarrow> match_here reg_value s = None"
  using match_here_starts [of s] by (cases "match_here reg_value s") auto

lemma no_match_no_start:
  "match_here reg_value s = None \<Longrightarrow> \<not> starts_assignment s v w"
  using starts_match_here [of s v w] by auto

lemma search_leftmost:
  assumes m: "match_here p t = Some gs"
  shows "list_all (\<lambda>q. match_here p (q @ t) = None) (tails pre) \<Longrightarrow>
    search p (pre @ t) = Some gs"
proof (induction pre)
  case Nil
  from m show ?case by (cases t) simp_all
next
  case (Cons c pre)
  from Cons.prems have n: "match_here p ((c # pre) @ t) = None"
    and r: "list_all (\<lambda>q. match_here p (q @ t) = None) (tails pre)"
    by simp_all
  from Cons.IH [OF r] n show ?case by simp
qed

lemma extract_value_leftmost:
  assumes s: "starts_assignment t val rest"
    and n: "list_all (\<lambda>q. \<forall>v w. \<not> starts_assignment (q @ t) v w) (tails pre)"
  shows "extract_value (pre @ t) = val"
proof -
  from s have m: "match_here reg_value t = Some [val]"
    by (rule starts_match_here)
  from n have "list_all (\<lambda>q. match_here reg_value (q @ t) = None) (tails pre)"
    by (auto simp: list_all_iff intro: no_start_no_match)
  from search_leftmost [OF m this] show ?thesis
    by (simp add: extract_value_def)
qed

text \<open>What \<open>extract_value\<close> returns.\<close>

lemma extract_value_unchanged: "\<not> has_assignment r \<Longrightarrow> extract_value r = r"
proof -
  assume n: "\<not> has_assignment r"
  have "search reg_value r = None"
  proof (cases "search reg_value r")
    case None
    then show ?thesis .
  next
    case (Some gs)
    then have "has_assignment r" by (rule search_reg_value_Some(1))
    with n show ?thesis by simp
  qed
  then show ?thesis by (simp add: extract_value_def)
qed

lemma extract_value_cases:
  "(search reg_value r = None \<and> extract_value r = r) \<or>
   (\<exists>val. search reg_value r = Some [val] \<and> extract_value r = val \<and> val \<noteq> [] \<and> list_all isword val)"
proof (cases "search reg_value r")
  case None
  then show ?thesis by (simp add: extract_value_def)
next
  case (Some gs)
  from search_reg_value_Some(2) [OF Some] obtain val
    where "gs = [val]" "val \<noteq> []" "list_all isword val" by blast
  with Some show ?thesis by (simp add: extract_value_def)
qed

lemma extract_value_no_assignment: "\<not> has_assignment (extract_value r)"
proof
  assume h: "has_assignment (extract_value r)"
  from extract_value_cases [of r] show False
  proof (elim disjE conjE exE)
    assume "search reg_value r = None" "extract_value r = r"
    with h has_assignment_search [of r] show False by simp
  next
    fix val
    assume "extract_value r = val" "list_all isword val"
    with has_assignment_eq_sign [OF h] show False
      by (auto simp: list_all_iff dest: isword_not_eq)
  qed
qed

section \<open>Lemmas about the adapter\<close>

lemma super_read_Cons:
  "inbuf (connection a) = l # ls \<Longrightarrow>
   super_read a =
     (Inr l, a\<lparr>connection := (connection a)
                 \<lparr>inbuf := ls, events := events (connection a) @ [ReadLine l]\<rparr>\<rparr>)"
  by (simp add: super_read_def transport_read_def)

lemma super_write_refused:
  "refused (script (connection a)) \<Longrightarrow>
   super_write command a =
     (Inl VisaIOError, a\<lparr>connection := (connection a)\<lparr>script := tl (script (connection a))\<rparr>\<rparr>)"
  by (simp add: super_write_def transport_write_def)

lemma super_write_sent:
  "\<not> refused (script (connection a)) \<Longrightarrow>
   super_write command a =
     (Inr (),
      a\<lparr>connection := (connection a)
          \<lparr>inbuf := inbuf (connection a) @ answer (script (connection a)),
           script := tl (script (connection a)),
           events := events (connection a)
             @ [WriteLine (command @ write_termination (connection a))]\<rparr>\<rparr>)"
  by (simp add: super_write_def transport_write_def)

lemma pending_not_refused: "pending a = echo # rest \<Longrightarrow> \<not> refused (script (connection a))"
  by (simp add: pending_def split: if_splits)

lemma pending_cases:
  "refused (script (connection a))
   \<or> (\<not> refused (script (connection a)) \<and> pending a = [])
   \<or> (\<exists>echo rest. pending a = echo # rest)"
  by (cases "pending a") auto

lemma write_cmd_refused:
  "refused (script (connection a)) \<Longrightarrow>
   write_cmd command check_ack a =
     (Inl VisaIOError,
      a\<lparr>lastcommand := Some command,
        connection := (connection a)\<lparr>script := tl (script (connection a))\<rparr>\<rparr>)"
  by (simp add: write_cmd_def Let_def super_write_refused)

lemma write_cmd_timeout:
  "\<not> refused (script (connection a)) \<Longrightarrow> pending a = [] \<Longrightarrow>
   write_cmd command check_ack a =
     (Inl VisaIOError,
      a\<lparr>lastcommand := Some command,
        connection := (connection a)
          \<lparr>inbuf := [],
           script := tl (script (connection a)),
           events := events (connection a)
             @ [WriteLine (command @ write_termination (connection a))]\<rparr>\<rparr>)"
  by (simp add: write_cmd_def Let_def super_write_sent super_read_def transport_read_def
      pending_def)

lemma write_cmd_after_echo:
  "pending a = echo # rest \<Longrightarrow>
   write_cmd command check_ack a =
     (let a3 = a\<lparr>lastcommand := Some command,
                 connection := (connection a)
                   \<lparr>script := tl (script (connection a)),
                    inbuf := rest,
                    events := events (connection a)
                      @ [WriteLine (command @ write_termination (connection a)),
                         ReadLine echo]\<rparr>\<rparr>
      in if echo \<noteq> ''''
         then (Inl (ValueError (echo_message command echo)), a3)
         else if check_ack
           then (case super_read a3 of
                   (Inl e, a4) \<Rightarrow> (Inl e, a4)
                 | (Inr ack, a4) \<Rightarrow> check_acknowledgement ack a4)
           else (Inr (), a3))"
proof -
  assume p: "pending a = echo # rest"
  then have n: "\<not> refused (script (connection (a\<lparr>lastcommand := Some command\<rparr>)))"
    by (simp add: pending_not_refused)
  from p have i: "inbuf (connection a) @ answer (script (connection a)) = echo # rest"
    by (simp add: pending_def split: if_splits)
  show ?thesis
    by (simp add: write_cmd_def Let_def super_write_sent [OF n] super_read_def
        transport_read_def i)
qed

lemma write_cmd_lastcommand: "lastcommand (snd (write_cmd command check_ack a)) = Some command"
proof -
  consider (refused) "refused (script (connection a))"
    | (timeout) "\<not> refused (script (connection a))" "pending a = []"
    | (echo) echo rest where "pending a = echo # rest"
    using pending_cases [of a] by blast
  then show ?thesis
  proof cases
    case refused
    then show ?thesis by (simp add: write_cmd_refused)
  next
    case timeout
    then show ?thesis by (simp add: write_cmd_timeout)
  next
    case echo
    show ?thesis
      by (simp add: write_cmd_after_echo [OF echo] Let_def super_read_def
          transport_read_def check_acknowledgement_def flush_def
          split: list.splits)
  qed
qed

lemma write_cmd_settings:
  "preprocess_reply (snd (write_cmd c k a)) = preprocess_reply a \<and>
   baud_rate (connection (snd (write_cmd c k a))) = baud_rate (connection a) \<and>
   read_termination (connection (snd (write_cmd c k a))) = read_termination (connection a) \<and>
   write_termination (connection (snd (write_cmd c k a))) = write_termination (connection a) \<and>
   query_delay (connection (snd (write_cmd c k a))) = query_delay (connection a) \<and>
   time_limit (connection (snd (write_cmd c k a))) = time_limit (connection a) \<and>
   sleep_limit (connection (snd (write_cmd c k a))) = sleep_limit (connection a)"
proof -
  consider (refused) "refused (script (connection a))"
    | (timeout) "\<not> refused (script (connection a))" "pending a = []"
    | (echo) echo rest where "pending a = echo # rest"
    using pending_cases [of a] by blast
  then show ?thesis
  proof cases
    case refused
    then show ?thesis by (simp add: write_cmd_refused)
  next
    case timeout
    then show ?thesis by (simp add: write_cmd_timeout)
  next
    case echo
    show ?thesis
      by (simp add: write_cmd_after_echo [OF echo] Let_def super_read_def
          transport_read_def check_acknowledgement_def flush_def transport_flush_def
          split: list.splits)
  qed
qed

lemma write_cmd_events:
  "(\<exists>e. fst (write_cmd c k a) = Inl e \<and>
        events (connection (snd (write_cmd c k a))) = events (connection a))
   \<or> (\<exists>evs. events (connection (snd (write_cmd c k a)))
        = events (connection a) @ WriteLine (c @ write_termination (connection a)) # evs)"
proof -
  consider (refused) "refused (script (connection a))"
    | (timeout) "\<not> refused (script (connection a))" "pending a = []"
    | (echo) echo rest where "pending a = echo # rest"
    using pending_cases [of a] by blast
  then show ?thesis
  proof cases
    case refused
    then show ?thesis by (simp add: write_cmd_refused)
  next
    case timeout
    then show ?thesis by (simp add: write_cmd_timeout)
  next
    case echo
    show ?thesis
      by (simp add: write_cmd_after_echo [OF echo] Let_def super_read_def
          transport_read_def check_acknowledgement_def flush_def transport_flush_def
          split: list.splits)
  qed
qed

lemma write_cmd_error:
  "fst (write_cmd command check_ack a) = Inl e \<Longrightarrow>
   e = VisaIOError
     \<or> (\<exists>reply. reply \<noteq> '''' \<and> e = ValueError (echo_message command reply))
     \<or> (\<exists>reply. reply \<noteq> ''[OK]'' \<and> e = ValueError (ack_message command reply))"
proof -
  assume f: "fst (write_cmd command check_ack a) = Inl e"
  consider (refused) "refused (script (connection a))"
    | (timeout) "\<not> refused (script (connection a))" "pending a = []"
    | (echo) echo rest where "pending a = echo # rest"
    using pending_cases [of a] by blast
  then show ?thesis
  proof cases
    case refused
    with f show ?thesis by (simp add: write_cmd_refused)
  next
    case timeout
    with f show ?thesis by (simp add: write_cmd_timeout)
  next
    case echo
    from f show ?thesis
      by (auto simp add: write_cmd_after_echo [OF echo] Let_def super_read_def
          transport_read_def check_acknowledgement_def flush_def
          split: list.splits if_splits)
  qed
qed

lemma sleep_lastcommand: "lastcommand (snd (sleep d a)) = lastcommand a"
  by (simp add: sleep_def transport_sleep_def split: pyfloat.splits)

lemma sleep_error:
  "fst (sleep d a) = Inl e \<Longrightarrow>
   e = OverflowError \<or> e = OSError
     \<or> e = ValueError ''sleep length must be non-negative''
     \<or> e = ValueError ''Invalid value NaN (not a number)''"
  by (auto simp add: sleep_def transport_sleep_def split: pyfloat.splits if_splits)

lemma sleep_accepted:
  "0 \<le> d \<Longrightarrow> d \<le> time_limit (connection a) \<Longrightarrow> d \<le> sleep_limit (connection a) \<Longrightarrow>
   sleep (Finite d) a =
     (Inr (), a\<lparr>connection := (connection a)\<lparr>events := events (connection a) @ [Sleep d]\<rparr>\<rparr>)"
  by (simp add: sleep_def transport_sleep_def)

lemma sleep_settings:
  "preprocess_reply (snd (sleep d a)) = preprocess_reply a \<and>
   baud_rate (connection (snd (sleep d a))) = baud_rate (connection a) \<and>
   read_termination (connection (snd (sleep d a))) = read_termination (connection a) \<and>
   write_termination (connection (snd (sleep d a))) = write_termination (connection a)"
  by (simp add: sleep_def transport_sleep_def split: pyfloat.splits)

lemma sleep_events: "\<exists>evs. events (connection (snd (sleep d a))) = events (connection a) @ evs"
  by (simp add: sleep_def transport_sleep_def split: pyfloat.splits)

lemma read_lastcommand: "lastcommand (snd (read a)) = lastcommand a"
  by (simp add: read_def super_read_def transport_read_def check_acknowledgement_def flush_def
      Let_def split: list.splits option.splits)

lemma read_error:
  "fst (read a) = Inl e \<Longrightarrow> lastcommand a = Some command \<Longrightarrow>
   e = VisaIOError \<or> (\<exists>reply. reply \<noteq> ''[OK]'' \<and> e = ValueError (ack_message command reply))"
  by (auto simp add: read_def super_read_def transport_read_def check_acknowledgement_def
      flush_def Let_def split: list.splits if_splits)

lemma read_settings:
  "preprocess_reply (snd (read a)) = preprocess_reply a \<and>
   baud_rate (connection (snd (read a))) = baud_rate (connection a) \<and>
   read_termination (connection (snd (read a))) = read_termination (connection a) \<and>
   write_termination (connection (snd (read a))) = write_termination (connection a)"
  by (simp add: read_def super_read_def transport_read_def check_acknowledgement_def flush_def
      transport_flush_def Let_def split: list.splits option.splits)

lemma read_events: "\<exists>evs. events (connection (snd (read a))) = events (connection a) @ evs"
  by (simp add: read_def super_read_def transport_read_def check_acknowledgement_def flush_def
      transport_flush_def Let_def split: list.splits option.splits)

lemma ask_after_echo:
  assumes p: "pending a = '''' # rest"
  shows "ask command a =
     (let a1 = a\<lparr>lastcommand := Some command,
                 connection := (connection a)
                   \<lparr>script := tl (script (connection a)),
                    inbuf := rest,
                    events := events (connection a)
                      @ [WriteLine (command @ write_termination (connection a)),
                         ReadLine '''']\<rparr>\<rparr>
      in case sleep (query_delay (connection a)) a1 of
           (Inl e, a2) \<Rightarrow> (Inl e, a2)
         | (Inr u, a2) \<Rightarrow> read a2)"
  by (simp add: ask_def write_cmd_after_echo [OF p] Let_def)

lemma ask_success:
  assumes p: "pending a = '''' # data # ''[OK]'' # rest"
    and q: "query_delay (connection a) = Finite d"
    and d: "0 \<le> d" "d \<le> time_limit (connection a)" "d \<le> sleep_limit (connection a)"
  shows "ask command a =
     (Inr data,
      a\<lparr>lastcommand := Some command,
        connection := (connection a)
          \<lparr>script := tl (script (connection a)),
           inbuf := rest,
           events := events (connection a)
             @ [WriteLine (command @ write_termination (connection a)), ReadLine '''',
                Sleep d, ReadLine data, ReadLine ''[OK]'']\<rparr>\<rparr>)"
proof -
  let ?a1 = "a\<lparr>lastcommand := Some command,
        connection := (connection a)
          \<lparr>script := tl (script (connection a)),
           inbuf := data # ''[OK]'' # rest,
           events := events (connection a)
             @ [WriteLine (command @ write_termination (connection a)), ReadLine '''']\<rparr>\<rparr>"
  let ?a2 = "?a1\<lparr>connection := (connection ?a1)
          \<lparr>events := events (connection ?a1) @ [Sleep d]\<rparr>\<rparr>"
  have s: "sleep (Finite d) ?a1 = (Inr (), ?a2)"
    using d by (simp add: sleep_accepted)
  have "inbuf (connection ?a2) = data # ''[OK]'' # rest"
    by simp
  then have r: "read ?a2 = (Inr data, ?a2\<lparr>connection := (connection ?a2)
          \<lparr>inbuf := rest,
           events := events (connection ?a2) @ [ReadLine data, ReadLine ''[OK]'']\<rparr>\<rparr>)"
    by (simp add: read_def super_read_Cons check_acknowledgement_def)
  show ?thesis
    unfolding ask_after_echo [OF p] Let_def q by (simp only: prod.case sum.case s r) simp
qed

lemma ask_unfold:
  "snd (ask c a) =
     (case fst (write_cmd c False a) of
        Inl e \<Rightarrow> snd (write_cmd c False a)
      | Inr u \<Rightarrow>
          (case fst (sleep (query_delay (connection (snd (write_cmd c False a))))
                       (snd (write_cmd c False a))) of
             Inl e \<Rightarrow> snd (sleep (query_delay (connection (snd (write_cmd c False a))))
                          (snd (write_cmd c False a)))
           | Inr u \<Rightarrow> snd (read (snd (sleep (query_delay (connection (snd (write_cmd c False a))))
                          (snd (write_cmd c False a)))))))"
  by (simp add: ask_def split: prod.splits sum.splits)

lemma ask_settings:
  "preprocess_reply (snd (ask c a)) = preprocess_reply a \<and>
   baud_rate (connection (snd (ask c a))) = baud_rate (connection a) \<and>
   read_termination (connection (snd (ask c a))) = read_termination (connection a) \<and>
   write_termination (connection (snd (ask c a))) = write_termination (connection a)"
  unfolding ask_unfold
  by (simp add: write_cmd_settings sleep_settings read_settings split: sum.splits)

lemma ask_events:
  "events (connection (snd (ask c a))) = events (connection a)
   \<or> (\<exists>evs. events (connection (snd (ask c a)))
        = events (connection a) @ WriteLine (c @ write_termination (connection a)) # evs)"
proof -
  let ?a1 = "snd (write_cmd c False a)"
  let ?a2 = "snd (sleep (query_delay (connection ?a1)) ?a1)"
  obtain e2 where e2: "events (connection ?a2) = events (connection ?a1) @ e2"
    using sleep_events by blast
  obtain e3 where e3: "events (connection (snd (read ?a2))) = events (connection ?a2) @ e3"
    using read_events by blast
  from write_cmd_events [of c False a] show ?thesis
  proof
    assume "\<exists>e. fst (write_cmd c False a) = Inl e \<and>
        events (connection ?a1) = events (connection a)"
    then show ?thesis
      unfolding ask_unfold by auto
  next
    assume "\<exists>evs. events (connection ?a1)
        = events (connection a) @ WriteLine (c @ write_termination (connection a)) # evs"
    then obtain e1 where e1: "events (connection ?a1)
        = events (connection a) @ WriteLine (c @ write_termination (connection a)) # e1"
      by blast
    show ?thesis
      unfolding ask_unfold
      by (simp add: e1 e2 e3 split: sum.splits)
  qed
qed

lemma write_cmd_events_sent:
  assumes n: "\<not> refused (script (connection a))"
  shows "\<exists>evs. events (connection (snd (write_cmd c k a)))
        = events (connection a) @ WriteLine (c @ write_termination (connection a)) # evs"
proof (cases "pending a")
  case Nil
  with n show ?thesis by (simp add: write_cmd_timeout)
next
  case (Cons echo rest)
  show ?thesis
    by (simp add: write_cmd_after_echo [OF Cons] Let_def super_read_def
        transport_read_def check_acknowledgement_def flush_def transport_flush_def
        split: list.splits)
qed

lemma ask_events_sent:
  assumes n: "\<not> refused (script (connection a))"
  shows "\<exists>evs. events (connection (snd (ask c a)))
        = events (connection a) @ WriteLine (c @ write_termination (connection a)) # evs"
proof -
  let ?a1 = "snd (write_cmd c False a)"
  let ?a2 = "snd (sleep (query_delay (connection ?a1)) ?a1)"
  obtain e1 where e1: "events (connection ?a1)
      = events (connection a) @ WriteLine (c @ write_termination (connection a)) # e1"
    using write_cmd_events_sent [OF n] by blast
  obtain e2 where e2: "events (connection ?a2) = events (connection ?a1) @ e2"
    using sleep_events by blast
  obtain e3 where e3: "events (connection (snd (read ?a2))) = events (connection ?a2) @ e3"
    using read_events by blast
  show ?thesis
    unfolding ask_unfold
    by (simp add: e1 e2 e3 split: sum.splits)
qed

lemma ask_lastcommand: "lastcommand (snd (ask c a)) = Some c"
  unfolding ask_unfold
  by (simp add: write_cmd_lastcommand sleep_lastcommand read_lastcommand split: sum.splits)

lemma ask_error:
  assumes f: "fst (ask command a) = Inl e"
  shows "e = VisaIOError \<or> e = OverflowError \<or> e = OSError
     \<or> e = ValueError ''sleep length must be non-negative''
     \<or> e = ValueError ''Invalid value NaN (not a number)''
     \<or> (\<exists>reply. reply \<noteq> '''' \<and> e = ValueError (echo_message command reply))
     \<or> (\<exists>reply. reply \<noteq> ''[OK]'' \<and> e = ValueError (ack_message command reply))"
proof -
  obtain r1 a1 where w: "write_cmd command False a = (r1, a1)"
    by (cases "write_cmd command False a")
  have l1: "lastcommand a1 = Some command"
    using write_cmd_lastcommand [of command False a] w by simp
  obtain r2 a2 where s: "sleep (query_delay (connection a1)) a1 = (r2, a2)"
    by (cases "sleep (query_delay (connection a1)) a1")
  have l2: "lastcommand a2 = Some command"
    using sleep_lastcommand [of "query_delay (connection a1)" a1] s l1 by simp
  show ?thesis
  proof (cases r1)
    case (Inl e1)
    with f w have "e = e1" by (simp add: ask_def)
    with Inl w write_cmd_error [of command False a e] show ?thesis by auto
  next
    case r1: (Inr u1)
    show ?thesis
    proof (cases r2)
      case (Inl e2)
      with f w s r1 have "e = e2" by (simp add: ask_def)
      with Inl s sleep_error [of "query_delay (connection a1)" a1 e] show ?thesis by auto
    next
      case (Inr u2)
      with f w s r1 have "fst (read a2) = Inl e" by (simp add: ask_def)
      from read_error [OF this l2] show ?thesis by auto
    qed
  qed
qed

section \<open>Lemmas about construction\<close>

lemma init_configured:
  "init port baud kw resource =
     (case super_write ''echo off'' (configured port baud kw resource) of
        (Inl e, a2) \<Rightarrow> (Inl e, a2)
      | (Inr u, a2) \<Rightarrow>
          (case super_write ''prom off'' a2 of
             (Inl e, a3) \<Rightarrow> (Inl e, a3)
           | (Inr u, a3) \<Rightarrow>
               (case sleep (Finite 0.04) a3 of
                  (Inl e, a4) \<Rightarrow> (Inl e, a4)
                | (Inr u, a4) \<Rightarrow>
                    (case ask ''talk usual'' (flush a4) of
                       (Inl e, a5) \<Rightarrow> (Inl e, a5)
                     | (Inr u, a5) \<Rightarrow> (Inr (), a5)))))"
proof -
  let ?a0 = "super_init port (setdefault (kw_preprocess_reply kw) extract_value)
      (setdefault (kw_read_termination kw) [CHR 0x0D, CHR 0x0A])
      (setdefault (kw_write_termination kw) [CHR 0x0D, CHR 0x0A]) resource"
  have "?a0\<lparr>connection := (connection ?a0)
           \<lparr>baud_rate := baud, events := events (connection ?a0) @ [SetBaudRate baud]\<rparr>\<rparr>
      = configured port baud kw resource"
    by (cases resource) (simp add: super_init_def configured_def)
  then show ?thesis
    by (simp add: init_def Let_def)
qed

lemma configured_fields:
  "script (connection (configured port baud kw resource)) = script resource"
  "inbuf (connection (configured port baud kw resource)) = inbuf resource"
  "time_limit (connection (configured port baud kw resource)) = time_limit resource"
  "sleep_limit (connection (configured port baud kw resource)) = sleep_limit resource"
  "query_delay (connection (configured port baud kw resource)) = query_delay resource"
  "baud_rate (connection (configured port baud kw resource)) = baud"
  "read_termination (connection (configured port baud kw resource))
     = setdefault (kw_read_termination kw) [CHR 0x0D, CHR 0x0A]"
  "write_termination (connection (configured port baud kw resource))
     = setdefault (kw_write_termination kw) [CHR 0x0D, CHR 0x0A]"
  "events (connection (configured port baud kw resource))
     = events resource @ [Open port, SetBaudRate baud]"
  "preprocess_reply (configured port baud kw resource)
     = setdefault (kw_preprocess_reply kw) extract_value"
  "lastcommand (configured port baud kw resource) = None"
  by (simp_all add: configured_def)

text \<open>The constructor, step by step: where it can stop and what it has done by then.\<close>

lemma init_steps:
  "init port baud kw resource =
     (let c = configured port baud kw resource;
          wt = setdefault (kw_write_termination kw) [CHR 0x0D, CHR 0x0A]
      in if refused (script resource)
         then (Inl VisaIOError, c\<lparr>connection := (connection c)\<lparr>script := tl (script resource)\<rparr>\<rparr>)
         else if refused (tl (script resource))
         then (Inl VisaIOError,
               c\<lparr>connection := (connection c)
                  \<lparr>inbuf := inbuf resource @ answer (script resource),
                   script := tl (tl (script resource)),
                   events := events resource
                     @ [Open port, SetBaudRate baud, WriteLine (''echo off'' @ wt)]\<rparr>\<rparr>)
         else (let c3 = c\<lparr>connection := (connection c)
                  \<lparr>inbuf := inbuf resource @ answer (script resource)
                      @ answer (tl (script resource)),
                   script := tl (tl (script resource)),
                   events := events resource
                     @ [Open port, SetBaudRate baud, WriteLine (''echo off'' @ wt),
                        WriteLine (''prom off'' @ wt)]\<rparr>\<rparr>
               in if time_limit resource < 0.04 then (Inl OverflowError, c3)
                  else if sleep_limit resource < 0.04 then (Inl OSError, c3)
                  else (case ask ''talk usual''
                          (c3\<lparr>connection := (connection c3)
                             \<lparr>inbuf := [],
                              events := events (connection c3) @ [Sleep 0.04, FlushInput]\<rparr>\<rparr>) of
                          (Inl e, a5) \<Rightarrow> (Inl e, a5)
                        | (Inr u, a5) \<Rightarrow> (Inr (), a5))))"
  by (simp add: init_configured Let_def super_write_def transport_write_def configured_fields
      sleep_def transport_sleep_def flush_def transport_flush_def)

lemma snd_drop_result:
  "snd (case x of (Inl e, a5) \<Rightarrow> (Inl e, a5) | (Inr u, a5) \<Rightarrow> (Inr (), a5)) = snd x"
  by (simp split: prod.splits sum.splits)

lemma init_settings:
  "preprocess_reply (snd (init port baud kw resource))
     = setdefault (kw_preprocess_reply kw) extract_value"
  "read_termination (connection (snd (init port baud kw resource)))
     = setdefault (kw_read_termination kw) [CHR 0x0D, CHR 0x0A]"
  "write_termination (connection (snd (init port baud kw resource)))
     = setdefault (kw_write_termination kw) [CHR 0x0D, CHR 0x0A]"
  "baud_rate (connection (snd (init port baud kw resource))) = baud"
  by (simp_all add: init_steps Let_def snd_drop_result ask_settings configured_fields)

lemma init_events:
  "events (connection (snd (init port baud kw resource)))
     = events resource @ [Open port, SetBaudRate baud]
   \<or> events (connection (snd (init port baud kw resource)))
     = events resource @ [Open port, SetBaudRate baud,
         WriteLine (''echo off'' @ setdefault (kw_write_termination kw) [CHR 0x0D, CHR 0x0A])]
   \<or> events (connection (snd (init port baud kw resource)))
     = events resource @ [Open port, SetBaudRate baud,
         WriteLine (''echo off'' @ setdefault (kw_write_termination kw) [CHR 0x0D, CHR 0x0A]),
         WriteLine (''prom off'' @ setdefault (kw_write_termination kw) [CHR 0x0D, CHR 0x0A])]
   \<or> events (connection (snd (init port baud kw resource)))
     = events resource @ [Open port, SetBaudRate baud,
         WriteLine (''echo off'' @ setdefault (kw_write_termination kw) [CHR 0x0D, CHR 0x0A]),
         WriteLine (''prom off'' @ setdefault (kw_write_termination kw) [CHR 0x0D, CHR 0x0A]),
         Sleep 0.04, FlushInput]
   \<or> (\<exists>evs. events (connection (snd (init port baud kw resource)))
     = events resource @ [Open port, SetBaudRate baud,
         WriteLine (''echo off'' @ setdefault (kw_write_termination kw) [CHR 0x0D, CHR 0x0A]),
         WriteLine (''prom off'' @ setdefault (kw_write_termination kw) [CHR 0x0D, CHR 0x0A]),
         Sleep 0.04, FlushInput,
         WriteLine (''talk usual'' @ setdefault (kw_write_termination kw) [CHR 0x0D, CHR 0x0A])]
       @ evs)"
proof -
  let ?c = "configured port baud kw resource"
  let ?wt = "setdefault (kw_write_termination kw) [CHR 0x0D, CHR 0x0A]"
  let ?a4 = "?c\<lparr>connection := (connection ?c)
      \<lparr>script := tl (tl (script resource)),
       inbuf := [],
       events := events resource
         @ [Open port, SetBaudRate baud, WriteLine (''echo off'' @ ?wt),
            WriteLine (''prom off'' @ ?wt), Sleep 0.04, FlushInput]\<rparr>\<rparr>"
  from ask_events [of "''talk usual''" ?a4]
  have "events (connection (snd (ask ''talk usual'' ?a4)))
      = events resource
          @ [Open port, SetBaudRate baud, WriteLine (''echo off'' @ ?wt),
             WriteLine (''prom off'' @ ?wt), Sleep 0.04, FlushInput]
    \<or> (\<exists>evs. events (connection (snd (ask ''talk usual'' ?a4)))
      = events resource
          @ [Open port, SetBaudRate baud, WriteLine (''echo off'' @ ?wt),
             WriteLine (''prom off'' @ ?wt), Sleep 0.04, FlushInput,
             WriteLine (''talk usual'' @ ?wt)] @ evs)"
    by (simp add: configured_fields)
  then show ?thesis
    by (simp add: init_steps Let_def snd_drop_result configured_fields)
qed

lemma init_handshake:
  assumes "\<not> refused (script resource)" "\<not> refused (tl (script resource))"
    "\<not> refused (tl (tl (script resource)))"
    "0.04 \<le> time_limit resource" "0.04 \<le> sleep_limit resource"
  shows "\<exists>evs. events (connection (snd (init port baud kw resource)))
     = events resource @ [Open port, SetBaudRate baud,
         WriteLine (''echo off'' @ setdefault (kw_write_termination kw) [CHR 0x0D, CHR 0x0A]),
         WriteLine (''prom off'' @ setdefault (kw_write_termination kw) [CHR 0x0D, CHR 0x0A]),
         Sleep 0.04, FlushInput,
         WriteLine (''talk usual'' @ setdefault (kw_write_termination kw) [CHR 0x0D, CHR 0x0A])]
       @ evs"
proof -
  let ?c = "configured port baud kw resource"
  let ?wt = "setdefault (kw_write_termination kw) [CHR 0x0D, CHR 0x0A]"
  let ?a4 = "?c\<lparr>connection := (connection ?c)
      \<lparr>script := tl (tl (script resource)),
       inbuf := [],
       events := events resource
         @ [Open port, SetBaudRate baud, WriteLine (''echo off'' @ ?wt),
            WriteLine (''prom off'' @ ?wt), Sleep 0.04, FlushInput]\<rparr>\<rparr>"
  have n: "\<not> refused (script (connection ?a4))"
    using assms(3) by simp
  from ask_events_sent [OF n, of "''talk usual''"]
  have "\<exists>evs. events (connection (snd (ask ''talk usual'' ?a4)))
      = events resource
          @ [Open port, SetBaudRate baud, WriteLine (''echo off'' @ ?wt),
             WriteLine (''prom off'' @ ?wt), Sleep 0.04, FlushInput,
             WriteLine (''talk usual'' @ ?wt)] @ evs"
    by (simp add: configured_fields)
  with assms show ?thesis
    by (simp add: init_steps Let_def snd_drop_result configured_fields)
qed

lemma init_success:
  assumes s: "script resource
      = Answers r1 # Answers r2 # Answers ('''' # data # ''[OK]'' # extra) # later"
    and l: "0.04 \<le> time_limit resource" "0.04 \<le> sleep_limit resource"
    and q: "query_delay resource = Finite d"
    and d: "0 \<le> d" "d \<le> time_limit resource" "d \<le> sleep_limit resource"
  shows "fst (init port baud kw resource) = Inr ()"
    and "events (connection (snd (init port baud kw resource)))
     = events resource @ [Open port, SetBaudRate baud,
         WriteLine (''echo off'' @ setdefault (kw_write_termination kw) [CHR 0x0D, CHR 0x0A]),
         WriteLine (''prom off'' @ setdefault (kw_write_termination kw) [CHR 0x0D, CHR 0x0A]),
         Sleep 0.04, FlushInput,
         WriteLine (''talk usual'' @ setdefault (kw_write_termination kw) [CHR 0x0D, CHR 0x0A]),
         ReadLine '''', Sleep d, ReadLine data, ReadLine ''[OK]'']"
    and "inbuf (connection (snd (init port baud kw resource))) = extra"
proof -
  let ?c = "configured port baud kw resource"
  let ?wt = "setdefault (kw_write_termination kw) [CHR 0x0D, CHR 0x0A]"
  let ?a4 = "?c\<lparr>connection := (connection ?c)
      \<lparr>script := tl (tl (script resource)),
       inbuf := [],
       events := events resource
         @ [Open port, SetBaudRate baud, WriteLine (''echo off'' @ ?wt),
            WriteLine (''prom off'' @ ?wt), Sleep 0.04, FlushInput]\<rparr>\<rparr>"
  have p: "pending ?a4 = '''' # data # ''[OK]'' # extra"
    by (simp add: pending_def refused_def answer_def s)
  have q4: "query_delay (connection ?a4) = Finite d"
    by (simp add: configured_fields q)
  have d4: "0 \<le> d" "d \<le> time_limit (connection ?a4)" "d \<le> sleep_limit (connection ?a4)"
    using d by (simp_all add: configured_fields)
  note a = ask_success [OF p q4 d4, of "''talk usual''"]
  have i: "init port baud kw resource =
      (case ask ''talk usual'' ?a4 of
         (Inl e, a5) \<Rightarrow> (Inl e, a5)
       | (Inr u, a5) \<Rightarrow> (Inr (), a5))"
    using l by (simp add: init_steps Let_def refused_def s configured_fields)
  show "fst (init port baud kw resource) = Inr ()"
    unfolding i a by simp
  show "events (connection (snd (init port baud kw resource)))
     = events resource @ [Open port, SetBaudRate baud,
         WriteLine (''echo off'' @ ?wt), WriteLine (''prom off'' @ ?wt),
         Sleep 0.04, FlushInput, WriteLine (''talk usual'' @ ?wt),
         ReadLine '''', Sleep d, ReadLine data, ReadLine ''[OK]'']"
    unfolding i a by (simp add: configured_fields)
  show "inbuf (connection (snd (init port baud kw resource))) = extra"
    unfolding i a by simp
qed

text \<open>
  An adapter that the constructor has handed out has \<open>lastcommand\<close> set, and \<open>write\<close>,
  \<open>read\<close> and \<open>ask\<close> keep it set (\<open>write_cmd_lastcommand\<close>, \<open>read_lastcommand\<close>,
  \<open>ask_lastcommand\<close>): the message of \<open>check_acknowledgement\<close> can always be built.
\<close>

lemma init_lastcommand:
  "fst (init port baud kw resource) = Inr () \<Longrightarrow>
   lastcommand (snd (init port baud kw resource)) = Some ''talk usual''"
  by (simp add: init_steps Let_def snd_drop_result ask_lastcommand split: if_splits)

section \<open>The value extracted from a reply\<close>

text \<open>
  C1, as the specification states it, fails on the code: the group of the pattern is a run
  of word characters, so from \<open>power = 12.3 mW\<close> the adapter keeps \<open>12\<close> and not \<open>12.3\<close>;
  and the white space around the equals sign is not optional, so \<open>x=1\<close> is returned as it
  is.
\<close>

theorem extract_value_decimal_counterexample:
  "extract_value ''power = 12.3 mW'' = ''12'' \<and> extract_value ''power = 12.3 mW'' \<noteq> ''12.3'' \<and>
   extract_value ''x=1'' = ''x=1''"
  by code_simp

text \<open>
  C1, amended: \<open>extract_value\<close> is a function of the reply alone. A reply in which no
  assignment occurs (a name of word characters, at least one white space character, an
  equals sign, at least one white space character, a value of word characters) is returned
  unchanged. Otherwise take the leftmost position of the reply at which an assignment
  starts (\<open>pre\<close> is what stands before it: no assignment starts at any position of
  \<open>pre\<close>): the result is the value token of that assignment, the whole run of word
  characters after the white space that follows the equals sign. The one case left out is
  a value token that is followed by a decimal point, where the documentation promises the
  number and the code returns its integer part.
\<close>

theorem extract_value_assignment:
  "(\<not> has_assignment r \<longrightarrow> extract_value r = r) \<and>
   (\<forall>pre t val rest.
      r = pre @ t \<and> starts_assignment t val rest \<and>
      list_all (\<lambda>q. \<forall>v w. \<not> starts_assignment (q @ t) v w) (tails pre) \<and>
      (rest = [] \<or> hd rest \<noteq> CHR ''.'')
      \<longrightarrow> extract_value r = val)"
proof (intro conjI allI impI)
  assume "\<not> has_assignment r"
  then show "extract_value r = r" by (rule extract_value_unchanged)
next
  fix pre t val rest
  assume h: "r = pre @ t \<and> starts_assignment t val rest \<and>
      list_all (\<lambda>q. \<forall>v w. \<not> starts_assignment (q @ t) v w) (tails pre) \<and>
      (rest = [] \<or> hd rest \<noteq> CHR ''.'')"
  then have "extract_value (pre @ t) = val"
    by (intro extract_value_leftmost) blast+
  with h show "extract_value r = val" by simp
qed

theorem extract_value_assignment_witness:
  "extract_value ''power = 12 mW'' = ''12'' \<and>
   extract_value ''x = 5;'' = ''5'' \<and>
   extract_value ''a = = b = c'' = ''c'' \<and>
   extract_value [CHR 0xE9, CHR '' '', CHR ''='', CHR 0xA0, CHR ''5''] = ''5'' \<and>
   extract_value ''no pattern here'' = ''no pattern here''"
proof (intro conjI)
  have "starts_assignment (''power'' @ '' '' @ ''='' @ '' '' @ ''12'' @ '' mW'') ''12'' '' mW''"
    by (rule starts_assignmentI) (simp_all add: isword_def isspace_def)
  then show "extract_value ''power = 12 mW'' = ''12''"
    using extract_value_assignment [of "''power = 12 mW''", THEN conjunct2, rule_format,
        of "[]" "''power = 12 mW''" "''12''" "'' mW''"]
    by simp
  have "starts_assignment (''x'' @ '' '' @ ''='' @ '' '' @ ''5'' @ '';'') ''5'' '';''"
    by (rule starts_assignmentI) (simp_all add: isword_def isspace_def)
  then show "extract_value ''x = 5;'' = ''5''"
    using extract_value_assignment [of "''x = 5;''", THEN conjunct2, rule_format,
        of "[]" "''x = 5;''" "''5''" "'';''"]
    by simp
  have s: "starts_assignment (''b'' @ '' '' @ ''='' @ '' '' @ ''c'' @ []) ''c'' []"
    by (rule starts_assignmentI) (simp_all add: isword_def isspace_def)
  have n: "match_here reg_value ''a = = b = c'' = None"
    "match_here reg_value '' = = b = c'' = None"
    "match_here reg_value ''= = b = c'' = None"
    "match_here reg_value '' = b = c'' = None"
    "match_here reg_value ''= b = c'' = None"
    "match_here reg_value '' b = c'' = None"
    by code_simp+
  have "list_all (\<lambda>q. \<forall>v w. \<not> starts_assignment (q @ ''b = c'') v w) (tails ''a = = '')"
    using n by (simp add: no_match_no_start)
  with s show "extract_value ''a = = b = c'' = ''c''"
    using extract_value_assignment [of "''a = = b = c''", THEN conjunct2, rule_format,
        of "''a = = ''" "''b = c''" "''c''" "[]"]
    by simp
  have "starts_assignment ([CHR 0xE9] @ '' '' @ ''='' @ [CHR 0xA0] @ ''5'' @ []) ''5'' []"
    by (rule starts_assignmentI) (simp_all add: isword_def isspace_def)
  then show "extract_value [CHR 0xE9, CHR '' '', CHR ''='', CHR 0xA0, CHR ''5''] = ''5''"
    using extract_value_assignment [of "[CHR 0xE9, CHR '' '', CHR ''='', CHR 0xA0, CHR ''5'']",
        THEN conjunct2, rule_format,
        of "[]" "[CHR 0xE9, CHR '' '', CHR ''='', CHR 0xA0, CHR ''5'']" "''5''" "[]"]
    by simp
  have "\<not> has_assignment ''no pattern here''"
    using has_assignment_eq_sign [of "''no pattern here''"] by auto
  then show "extract_value ''no pattern here'' = ''no pattern here''"
    using extract_value_assignment [of "''no pattern here''"] by simp
qed

text \<open>
  C8: for every reply whose extracted value holds no further assignment, extracting a
  second time changes nothing. (By \<open>extract_value_no_assignment\<close> that is every reply.)
\<close>

theorem extract_value_idempotent:
  "\<not> has_assignment (extract_value r) \<Longrightarrow> extract_value (extract_value r) = extract_value r"
  by (rule extract_value_unchanged)

theorem extract_value_idempotent_witness:
  "\<not> has_assignment (extract_value ''power = 12.3 mW'') \<and>
   extract_value (extract_value ''power = 12.3 mW'') = extract_value ''power = 12.3 mW''"
proof -
  have h: "\<not> has_assignment (extract_value ''power = 12.3 mW'')"
    by (rule extract_value_no_assignment)
  from h extract_value_idempotent [OF h] show ?thesis by simp
qed

section \<open>Acknowledgement, read and write\<close>

text \<open>
  C3: \<open>check_acknowledgement\<close> of the reply \<open>[OK]\<close> succeeds and leaves the adapter and
  the transport as they were. Any other reply flushes the input buffer of the transport
  once and then fails with a \<open>ValueError\<close> whose message is
  \<open>TopticaAdapter: Error after command '<last command>' with message '<reply>'\<close>; the
  adapter handed back with the error has the flush done: its buffer is empty and the one
  thing added to the record of the transport is the flush. (A last command exists on
  every adapter that was constructed, see \<open>init_lastcommand\<close>.)
\<close>

theorem check_acknowledgement_spec:
  "check_acknowledgement ''[OK]'' a = (Inr (), a) \<and>
   (reply \<noteq> ''[OK]'' \<and> lastcommand a = Some cmd \<longrightarrow>
      check_acknowledgement reply a =
        (Inl (ValueError
           (''TopticaAdapter: Error after command '' @ [CHR 0x27] @ cmd @ [CHR 0x27]
              @ '' with message '' @ [CHR 0x27] @ reply @ [CHR 0x27])),
         a\<lparr>connection := (connection a)
              \<lparr>inbuf := [], events := events (connection a) @ [FlushInput]\<rparr>\<rparr>))"
  by (simp add: check_acknowledgement_def flush_def transport_flush_def ack_message_def)

theorem check_acknowledgement_spec_witness:
  "check_acknowledgement ''[OK]'' (bench [''stale''] []) = (Inr (), bench [''stale''] []) \<and>
   check_acknowledgement ''[ERR] foo'' (bench [''stale''] [])
     = (Inl (ValueError
          (''TopticaAdapter: Error after command '' @ [CHR 0x27] @ ''talk usual'' @ [CHR 0x27]
             @ '' with message '' @ [CHR 0x27] @ ''[ERR] foo'' @ [CHR 0x27])),
        (bench [''stale''] [])\<lparr>connection := (connection (bench [''stale''] []))
           \<lparr>inbuf := [], events := [FlushInput]\<rparr>\<rparr>)"
  using check_acknowledgement_spec [of "bench [''stale''] []" "''[ERR] foo''" "''talk usual''"]
  by (simp add: bench_def bench_with_def)

text \<open>
  C4: \<open>read\<close> reads one data line, then a second line that it gives to
  \<open>check_acknowledgement\<close>. When the second line is \<open>[OK]\<close> the data line is returned;
  when it is not, the error of \<open>check_acknowledgement\<close> is raised and the input buffer has
  been flushed once.
\<close>

theorem read_data_then_ack:
  "inbuf (connection a) = data # ack # rest \<Longrightarrow>
   (ack = ''[OK]'' \<longrightarrow>
      read a = (Inr data, a\<lparr>connection := (connection a)
                  \<lparr>inbuf := rest,
                   events := events (connection a) @ [ReadLine data, ReadLine ack]\<rparr>\<rparr>)) \<and>
   (ack \<noteq> ''[OK]'' \<and> lastcommand a = Some cmd \<longrightarrow>
      read a = (Inl (ValueError (ack_message cmd ack)), a\<lparr>connection := (connection a)
                  \<lparr>inbuf := [],
                   events := events (connection a)
                     @ [ReadLine data, ReadLine ack, FlushInput]\<rparr>\<rparr>))"
  by (simp add: read_def super_read_Cons check_acknowledgement_def flush_def transport_flush_def)

theorem read_data_then_ack_witness:
  "read (bench [''x = 1'', ''[ERR]''] [])
     = (Inl (ValueError (ack_message ''talk usual'' ''[ERR]'')),
        (bench [''x = 1'', ''[ERR]''] [])\<lparr>connection := (connection (bench [''x = 1'', ''[ERR]''] []))
           \<lparr>inbuf := [], events := [ReadLine ''x = 1'', ReadLine ''[ERR]'', FlushInput]\<rparr>\<rparr>) \<and>
   fst (read (bench [''x = 1'', ''[OK]'', ''next''] [])) = Inr ''x = 1''"
  using read_data_then_ack [of "bench [''x = 1'', ''[ERR]''] []" "''x = 1''" "''[ERR]''" "[]" "''talk usual''"]
    read_data_then_ack [of "bench [''x = 1'', ''[OK]'', ''next''] []" "''x = 1''" "''[OK]''" "[''next'']"]
  by (simp add: bench_def bench_with_def)

text \<open>
  C5: \<open>write\<close> sends the framed command and reads one line, the echo. A non-empty echo
  fails with a \<open>ValueError\<close> whose message is
  \<open>TopticaAdapter.write: Error after command '<command>' with message '<echo>'\<close>; nothing
  is flushed, and the lines behind the echo stay in the buffer.
\<close>

theorem write_unexpected_echo:
  "pending a = echo # rest \<Longrightarrow> echo \<noteq> '''' \<Longrightarrow>
   write_cmd command check_ack a =
     (Inl (ValueError
        (''TopticaAdapter.write: Error after command '' @ [CHR 0x27] @ command @ [CHR 0x27]
           @ '' with message '' @ [CHR 0x27] @ echo @ [CHR 0x27])),
      a\<lparr>lastcommand := Some command,
        connection := (connection a)
          \<lparr>script := tl (script (connection a)),
           inbuf := rest,
           events := events (connection a)
             @ [WriteLine (command @ write_termination (connection a)), ReadLine echo]\<rparr>\<rparr>)"
  by (simp add: write_cmd_after_echo echo_message_def)

theorem write_unexpected_echo_witness:
  "write_cmd ''set power 5'' True (bench [] [[''junk'', ''[OK]'']])
     = (Inl (ValueError
          (''TopticaAdapter.write: Error after command '' @ [CHR 0x27] @ ''set power 5''
             @ [CHR 0x27] @ '' with message '' @ [CHR 0x27] @ ''junk'' @ [CHR 0x27])),
        (bench [] [[''junk'', ''[OK]'']])\<lparr>lastcommand := Some ''set power 5'',
           connection := (connection (bench [] [[''junk'', ''[OK]'']]))
             \<lparr>script := [], inbuf := [''[OK]''],
              events := [WriteLine (''set power 5'' @ [CHR 0x0D, CHR 0x0A]), ReadLine ''junk'']\<rparr>\<rparr>)"
  using write_unexpected_echo [of "bench [] [[''junk'', ''[OK]'']]" "''junk''" "[''[OK]'']"
      "''set power 5''" True]
  by (simp add: bench_def bench_with_def pending_def refused_def answer_def)

text \<open>
  C6: when the transport delivers a line after the command is sent, \<open>write\<close> has sent one
  framed line and read that one echo line, whatever the echo is, before it returns or
  raises; without the acknowledgement check nothing more is read. With the check and an
  empty echo it reads one line more, the acknowledgement; with echo \<open>""\<close> and
  acknowledgement \<open>[OK]\<close> two lines are read and no error is raised.
\<close>

theorem write_lines_consumed:
  "pending a = echo # rest \<Longrightarrow>
   events (connection (snd (write_cmd command False a)))
     = events (connection a)
         @ [WriteLine (command @ write_termination (connection a)), ReadLine echo] \<and>
   inbuf (connection (snd (write_cmd command False a))) = rest \<and>
   (echo \<noteq> '''' \<longrightarrow>
      events (connection (snd (write_cmd command True a)))
        = events (connection a)
            @ [WriteLine (command @ write_termination (connection a)), ReadLine echo]) \<and>
   (echo = '''' \<and> rest = ack # rest' \<longrightarrow>
      events (connection (snd (write_cmd command True a)))
        = events (connection a)
            @ [WriteLine (command @ write_termination (connection a)), ReadLine echo,
               ReadLine ack]
            @ (if ack = ''[OK]'' then [] else [FlushInput])) \<and>
   (echo = '''' \<and> rest = ''[OK]'' # rest' \<longrightarrow>
      fst (write_cmd command True a) = Inr () \<and>
      inbuf (connection (snd (write_cmd command True a))) = rest')"
  by (simp add: write_cmd_after_echo Let_def super_read_Cons
      check_acknowledgement_def flush_def transport_flush_def split: option.splits)

theorem write_lines_consumed_witness:
  "events (connection (snd (write_cmd ''echo off'' False (bench [] [[''junk'', ''more'']]))))
     = [WriteLine (''echo off'' @ [CHR 0x0D, CHR 0x0A]), ReadLine ''junk''] \<and>
   inbuf (connection (snd (write_cmd ''echo off'' False (bench [] [[''junk'', ''more'']]))))
     = [''more''] \<and>
   events (connection (snd (write_cmd ''echo off'' True (bench [] [[''junk'', ''more'']]))))
     = [WriteLine (''echo off'' @ [CHR 0x0D, CHR 0x0A]), ReadLine ''junk''] \<and>
   events (connection (snd (write_cmd ''set power 5'' True (bench [] [['''', ''[OK]'']]))))
     = [WriteLine (''set power 5'' @ [CHR 0x0D, CHR 0x0A]), ReadLine '''', ReadLine ''[OK]''] \<and>
   fst (write_cmd ''set power 5'' True (bench [] [['''', ''[OK]'']])) = Inr () \<and>
   inbuf (connection (snd (write_cmd ''set power 5'' True (bench [] [['''', ''[OK]'']])))) = []"
  using write_lines_consumed [of "bench [] [[''junk'', ''more'']]" "''junk''" "[''more'']"
      "''echo off''"]
    write_lines_consumed [of "bench [] [['''', ''[OK]'']]" "''''" "[''[OK]'']"
      "''set power 5''" "''[OK]''" "[]"]
  by (simp add: bench_def bench_with_def pending_def refused_def answer_def)

text \<open>
  C9: \<open>write\<close> stores the command in \<open>lastcommand\<close> before it touches the transport:
  when the link refuses the frame, so that the first call on the transport raises and
  nothing has been sent or read, \<open>lastcommand\<close> is already the command. The assignment
  stays when \<open>write\<close> or \<open>ask\<close> fails later: after every failure \<open>lastcommand\<close> is
  the command that failed, and the error is one of these: the error of the transport (a
  refused frame or a timeout), for \<open>ask\<close> an error of \<open>time.sleep\<close>, the \<open>ValueError\<close>
  for a non-empty echo, or the \<open>ValueError\<close> for a line that should have been \<open>[OK]\<close>;
  the messages of the last two hold the command that failed.
\<close>

theorem lastcommand_after_failure:
  "(refused (script (connection a)) \<longrightarrow>
      write_cmd command check_ack a =
        (Inl VisaIOError,
         a\<lparr>lastcommand := Some command,
           connection := (connection a)\<lparr>script := tl (script (connection a))\<rparr>\<rparr>)) \<and>
   (fst (write_cmd command check_ack a) = Inl e \<longrightarrow>
      lastcommand (snd (write_cmd command check_ack a)) = Some command \<and>
      (e = VisaIOError
       \<or> (\<exists>reply. reply \<noteq> '''' \<and> e = ValueError
             (''TopticaAdapter.write: Error after command '' @ [CHR 0x27] @ command @ [CHR 0x27]
                @ '' with message '' @ [CHR 0x27] @ reply @ [CHR 0x27]))
       \<or> (\<exists>reply. reply \<noteq> ''[OK]'' \<and> e = ValueError
             (''TopticaAdapter: Error after command '' @ [CHR 0x27] @ command @ [CHR 0x27]
                @ '' with message '' @ [CHR 0x27] @ reply @ [CHR 0x27])))) \<and>
   (fst (ask command a) = Inl e \<longrightarrow>
      lastcommand (snd (ask command a)) = Some command \<and>
      (e = VisaIOError \<or> e = OverflowError \<or> e = OSError
       \<or> e = ValueError ''sleep length must be non-negative''
       \<or> e = ValueError ''Invalid value NaN (not a number)''
       \<or> (\<exists>reply. reply \<noteq> '''' \<and> e = ValueError
             (''TopticaAdapter.write: Error after command '' @ [CHR 0x27] @ command @ [CHR 0x27]
                @ '' with message '' @ [CHR 0x27] @ reply @ [CHR 0x27]))
       \<or> (\<exists>reply. reply \<noteq> ''[OK]'' \<and> e = ValueError
             (''TopticaAdapter: Error after command '' @ [CHR 0x27] @ command @ [CHR 0x27]
                @ '' with message '' @ [CHR 0x27] @ reply @ [CHR 0x27]))))"
proof (intro conjI impI)
  assume "refused (script (connection a))"
  then show "write_cmd command check_ack a =
        (Inl VisaIOError,
         a\<lparr>lastcommand := Some command,
           connection := (connection a)\<lparr>script := tl (script (connection a))\<rparr>\<rparr>)"
    by (rule write_cmd_refused)
next
  show "lastcommand (snd (write_cmd command check_ack a)) = Some command"
    by (rule write_cmd_lastcommand)
next
  assume "fst (write_cmd command check_ack a) = Inl e"
  from write_cmd_error [OF this]
  show "e = VisaIOError
       \<or> (\<exists>reply. reply \<noteq> '''' \<and> e = ValueError
             (''TopticaAdapter.write: Error after command '' @ [CHR 0x27] @ command @ [CHR 0x27]
                @ '' with message '' @ [CHR 0x27] @ reply @ [CHR 0x27]))
       \<or> (\<exists>reply. reply \<noteq> ''[OK]'' \<and> e = ValueError
             (''TopticaAdapter: Error after command '' @ [CHR 0x27] @ command @ [CHR 0x27]
                @ '' with message '' @ [CHR 0x27] @ reply @ [CHR 0x27]))"
    by (simp add: echo_message_def ack_message_def)
next
  show "lastcommand (snd (ask command a)) = Some command"
    by (rule ask_lastcommand)
next
  assume "fst (ask command a) = Inl e"
  from ask_error [OF this]
  show "e = VisaIOError \<or> e = OverflowError \<or> e = OSError
       \<or> e = ValueError ''sleep length must be non-negative''
       \<or> e = ValueError ''Invalid value NaN (not a number)''
       \<or> (\<exists>reply. reply \<noteq> '''' \<and> e = ValueError
             (''TopticaAdapter.write: Error after command '' @ [CHR 0x27] @ command @ [CHR 0x27]
                @ '' with message '' @ [CHR 0x27] @ reply @ [CHR 0x27]))
       \<or> (\<exists>reply. reply \<noteq> ''[OK]'' \<and> e = ValueError
             (''TopticaAdapter: Error after command '' @ [CHR 0x27] @ command @ [CHR 0x27]
                @ '' with message '' @ [CHR 0x27] @ reply @ [CHR 0x27]))"
    by (simp add: echo_message_def ack_message_def)
qed

theorem lastcommand_after_failure_witness:
  "write_cmd ''set power 5'' True (bench_with (Finite 0) [''stale''] [WriteError])
     = (Inl VisaIOError,
        (bench_with (Finite 0) [''stale''] [WriteError])\<lparr>lastcommand := Some ''set power 5'',
           connection := (connection (bench_with (Finite 0) [''stale''] [WriteError]))
             \<lparr>script := []\<rparr>\<rparr>) \<and>
   events (connection (snd (write_cmd ''set power 5'' True
       (bench_with (Finite 0) [''stale''] [WriteError])))) = [] \<and>
   fst (write_cmd ''set power 5'' True (bench [] [['''', ''[ERR]'']]))
     = Inl (ValueError
         (''TopticaAdapter: Error after command '' @ [CHR 0x27] @ ''set power 5'' @ [CHR 0x27]
            @ '' with message '' @ [CHR 0x27] @ ''[ERR]'' @ [CHR 0x27])) \<and>
   lastcommand (snd (write_cmd ''set power 5'' True (bench [] [['''', ''[ERR]'']])))
     = Some ''set power 5'' \<and>
   fst (ask ''power?'' (bench [] [[''junk'']]))
     = Inl (ValueError
         (''TopticaAdapter.write: Error after command '' @ [CHR 0x27] @ ''power?'' @ [CHR 0x27]
            @ '' with message '' @ [CHR 0x27] @ ''junk'' @ [CHR 0x27])) \<and>
   lastcommand (snd (ask ''power?'' (bench [] [[''junk'']]))) = Some ''power?'' \<and>
   fst (ask ''power?'' (bench_with PosInf [] [Answers ['''', ''x = 1'', ''[OK]'']]))
     = Inl OverflowError \<and>
   lastcommand (snd (ask ''power?'' (bench_with PosInf [] [Answers ['''', ''x = 1'', ''[OK]'']])))
     = Some ''power?''"
proof -
  have r: "refused (script (connection (bench_with (Finite 0) [''stale''] [WriteError])))"
    by (simp add: bench_with_def refused_def)
  have w: "fst (write_cmd ''set power 5'' True (bench [] [['''', ''[ERR]'']]))
     = Inl (ValueError
         (''TopticaAdapter: Error after command '' @ [CHR 0x27] @ ''set power 5'' @ [CHR 0x27]
            @ '' with message '' @ [CHR 0x27] @ ''[ERR]'' @ [CHR 0x27]))"
    by (simp add: write_cmd_def Let_def super_write_def transport_write_def super_read_def
        transport_read_def check_acknowledgement_def flush_def bench_def bench_with_def
        refused_def answer_def ack_message_def)
  have a: "fst (ask ''power?'' (bench [] [[''junk'']]))
     = Inl (ValueError
         (''TopticaAdapter.write: Error after command '' @ [CHR 0x27] @ ''power?'' @ [CHR 0x27]
            @ '' with message '' @ [CHR 0x27] @ ''junk'' @ [CHR 0x27]))"
    by (simp add: ask_def write_cmd_def Let_def super_write_def transport_write_def
        super_read_def transport_read_def bench_def bench_with_def refused_def answer_def
        echo_message_def)
  have o: "fst (ask ''power?'' (bench_with PosInf [] [Answers ['''', ''x = 1'', ''[OK]'']]))
     = Inl OverflowError"
    by (simp add: ask_def write_cmd_def Let_def super_write_def transport_write_def
        super_read_def transport_read_def sleep_def transport_sleep_def bench_with_def
        refused_def answer_def)
  from r w a o
    lastcommand_after_failure [of "bench_with (Finite 0) [''stale''] [WriteError]"
      "''set power 5''" True VisaIOError]
    lastcommand_after_failure [of "bench [] [['''', ''[ERR]'']]" "''set power 5''" True
      "ValueError
         (''TopticaAdapter: Error after command '' @ [CHR 0x27] @ ''set power 5'' @ [CHR 0x27]
            @ '' with message '' @ [CHR 0x27] @ ''[ERR]'' @ [CHR 0x27])"]
    lastcommand_after_failure [of "bench [] [[''junk'']]" "''power?''" True
      "ValueError
         (''TopticaAdapter.write: Error after command '' @ [CHR 0x27] @ ''power?'' @ [CHR 0x27]
            @ '' with message '' @ [CHR 0x27] @ ''junk'' @ [CHR 0x27])"]
    lastcommand_after_failure [of "bench_with PosInf [] [Answers ['''', ''x = 1'', ''[OK]'']]"
      "''power?''" True OverflowError]
  show ?thesis by (simp add: bench_with_def)
qed

text \<open>
  C10: when \<open>read\<close> has taken a data line and the next line is not \<open>[OK]\<close>, the data
  line is lost: \<open>read\<close> raises a \<open>ValueError\<close> whose message is
  \<open>TopticaAdapter: Error after command '<last command>' with message '<acknowledgement
  line>'\<close>, in which the data line has no part, and the adapter and its connection
  afterwards are the same whatever the data line was (only the record of events mentions
  that it was read).
\<close>

theorem read_discards_data:
  "ack \<noteq> ''[OK]'' \<Longrightarrow> lastcommand a = Some cmd \<Longrightarrow>
   fst (read (a\<lparr>connection := (connection a)\<lparr>inbuf := data # ack # rest\<rparr>\<rparr>))
     = Inl (ValueError
         (''TopticaAdapter: Error after command '' @ [CHR 0x27] @ cmd @ [CHR 0x27]
            @ '' with message '' @ [CHR 0x27] @ ack @ [CHR 0x27])) \<and>
   lastcommand (snd (read (a\<lparr>connection := (connection a)\<lparr>inbuf := data # ack # rest\<rparr>\<rparr>)))
     = lastcommand a \<and>
   preprocess_reply (snd (read (a\<lparr>connection := (connection a)\<lparr>inbuf := data # ack # rest\<rparr>\<rparr>)))
     = preprocess_reply a \<and>
   (connection (snd (read (a\<lparr>connection := (connection a)\<lparr>inbuf := data # ack # rest\<rparr>\<rparr>))))
       \<lparr>events := []\<rparr>
     = (connection a)\<lparr>inbuf := [], events := []\<rparr>"
  by (simp add: read_def super_read_Cons check_acknowledgement_def flush_def transport_flush_def
      ack_message_def)

theorem read_discards_data_witness:
  "fst (read (bench [''x = 1'', ''[ERR]'', ''later''] []))
     = Inl (ValueError
         (''TopticaAdapter: Error after command '' @ [CHR 0x27] @ ''talk usual'' @ [CHR 0x27]
            @ '' with message '' @ [CHR 0x27] @ ''[ERR]'' @ [CHR 0x27])) \<and>
   (connection (snd (read (bench [''x = 1'', ''[ERR]'', ''later''] []))))\<lparr>events := []\<rparr>
     = connection (bench [] [])"
  using read_discards_data [of "''[ERR]''" "bench [] []" "''talk usual''" "''x = 1''" "[''later'']"]
  by (simp add: bench_def bench_with_def)

section \<open>Queries and construction\<close>




text \<open>
  C7: the settings of the adapter are those of the keyword arguments, and where the caller
  gave none the reply hook is \<open>extract_value\<close> and both terminators are CR+LF; the baud
  rate is the one asked for. On the transport the constructor does, in this order: open,
  set the baud rate on the open connection, send \<open>echo off\<close> and \<open>prom off\<close> through the
  write of the base class (no line is read in between, whatever the instrument answers),
  sleep 0.04 seconds, flush the input, and run \<open>ask('talk usual')\<close>. What the transport
  has seen is always that list followed by what \<open>ask\<close> did after its frame, or, when a
  write or the sleep raised, the first 2, 3, 4 or 6 entries of it. When the link takes the
  three frames and \<open>time.sleep\<close> accepts 0.04 seconds the whole list is there; and when
  the instrument answers \<open>talk usual\<close> with an empty echo, a data line and \<open>[OK]\<close>, and
  \<open>time.sleep\<close> accepts the query delay \<open>d\<close>, the constructor returns nothing but the
  adapter: the value of \<open>ask\<close> is dropped.
\<close>

theorem init_sequence:
  "preprocess_reply (snd (init port baud kw resource))
     = (case kw_preprocess_reply kw of None \<Rightarrow> extract_value | Some hook \<Rightarrow> hook) \<and>
   read_termination (connection (snd (init port baud kw resource)))
     = (case kw_read_termination kw of None \<Rightarrow> [CHR 0x0D, CHR 0x0A] | Some rt \<Rightarrow> rt) \<and>
   write_termination (connection (snd (init port baud kw resource)))
     = (case kw_write_termination kw of None \<Rightarrow> [CHR 0x0D, CHR 0x0A] | Some wt \<Rightarrow> wt) \<and>
   baud_rate (connection (snd (init port baud kw resource))) = baud \<and>
   (let wt = (case kw_write_termination kw of None \<Rightarrow> [CHR 0x0D, CHR 0x0A] | Some wt \<Rightarrow> wt);
        handshake = [Open port, SetBaudRate baud, WriteLine (''echo off'' @ wt),
                     WriteLine (''prom off'' @ wt), Sleep 0.04, FlushInput,
                     WriteLine (''talk usual'' @ wt)]
    in ((\<exists>evs. events (connection (snd (init port baud kw resource)))
                 = events resource @ handshake @ evs)
        \<or> events (connection (snd (init port baud kw resource)))
            = events resource @ take 6 handshake
        \<or> events (connection (snd (init port baud kw resource)))
            = events resource @ take 4 handshake
        \<or> events (connection (snd (init port baud kw resource)))
            = events resource @ take 3 handshake
        \<or> events (connection (snd (init port baud kw resource)))
            = events resource @ take 2 handshake) \<and>
       (\<not> refused (script resource) \<and> \<not> refused (tl (script resource)) \<and>
        \<not> refused (tl (tl (script resource))) \<and>
        0.04 \<le> time_limit resource \<and> 0.04 \<le> sleep_limit resource \<longrightarrow>
          (\<exists>evs. events (connection (snd (init port baud kw resource)))
                   = events resource @ handshake @ evs)) \<and>
       (script resource
          = Answers r1 # Answers r2 # Answers ('''' # data # ''[OK]'' # extra) # later \<and>
        0.04 \<le> time_limit resource \<and> 0.04 \<le> sleep_limit resource \<and>
        query_delay resource = Finite d \<and>
        0 \<le> d \<and> d \<le> time_limit resource \<and> d \<le> sleep_limit resource \<longrightarrow>
          fst (init port baud kw resource) = Inr () \<and>
          lastcommand (snd (init port baud kw resource)) = Some ''talk usual'' \<and>
          inbuf (connection (snd (init port baud kw resource))) = extra \<and>
          events (connection (snd (init port baud kw resource)))
            = events resource @ handshake
                @ [ReadLine '''', Sleep d, ReadLine data, ReadLine ''[OK]'']))"
proof -
  have wt: "(case kw_write_termination kw of None \<Rightarrow> [CHR 0x0D, CHR 0x0A] | Some wt \<Rightarrow> wt)
      = setdefault (kw_write_termination kw) [CHR 0x0D, CHR 0x0A]"
    by (simp add: setdefault_def)
  have st: "preprocess_reply (snd (init port baud kw resource))
       = (case kw_preprocess_reply kw of None \<Rightarrow> extract_value | Some hook \<Rightarrow> hook)"
    "read_termination (connection (snd (init port baud kw resource)))
       = (case kw_read_termination kw of None \<Rightarrow> [CHR 0x0D, CHR 0x0A] | Some rt \<Rightarrow> rt)"
    "write_termination (connection (snd (init port baud kw resource)))
       = (case kw_write_termination kw of None \<Rightarrow> [CHR 0x0D, CHR 0x0A] | Some wt \<Rightarrow> wt)"
    "baud_rate (connection (snd (init port baud kw resource))) = baud"
    by (simp_all add: init_settings setdefault_def)
  have ev: "(\<exists>evs. events (connection (snd (init port baud kw resource)))
          = events resource @ [Open port, SetBaudRate baud,
              WriteLine (''echo off'' @ setdefault (kw_write_termination kw) [CHR 0x0D, CHR 0x0A]),
              WriteLine (''prom off'' @ setdefault (kw_write_termination kw) [CHR 0x0D, CHR 0x0A]),
              Sleep 0.04, FlushInput,
              WriteLine (''talk usual'' @ setdefault (kw_write_termination kw) [CHR 0x0D, CHR 0x0A])]
            @ evs)
      \<or> events (connection (snd (init port baud kw resource)))
          = events resource @ [Open port, SetBaudRate baud,
              WriteLine (''echo off'' @ setdefault (kw_write_termination kw) [CHR 0x0D, CHR 0x0A]),
              WriteLine (''prom off'' @ setdefault (kw_write_termination kw) [CHR 0x0D, CHR 0x0A]),
              Sleep 0.04, FlushInput]
      \<or> events (connection (snd (init port baud kw resource)))
          = events resource @ [Open port, SetBaudRate baud,
              WriteLine (''echo off'' @ setdefault (kw_write_termination kw) [CHR 0x0D, CHR 0x0A]),
              WriteLine (''prom off'' @ setdefault (kw_write_termination kw) [CHR 0x0D, CHR 0x0A])]
      \<or> events (connection (snd (init port baud kw resource)))
          = events resource @ [Open port, SetBaudRate baud,
              WriteLine (''echo off'' @ setdefault (kw_write_termination kw) [CHR 0x0D, CHR 0x0A])]
      \<or> events (connection (snd (init port baud kw resource)))
          = events resource @ [Open port, SetBaudRate baud]"
    using init_events [of port baud kw resource] by blast
  have hs: "\<exists>evs. events (connection (snd (init port baud kw resource)))
          = events resource @ [Open port, SetBaudRate baud,
              WriteLine (''echo off'' @ setdefault (kw_write_termination kw) [CHR 0x0D, CHR 0x0A]),
              WriteLine (''prom off'' @ setdefault (kw_write_termination kw) [CHR 0x0D, CHR 0x0A]),
              Sleep 0.04, FlushInput,
              WriteLine (''talk usual'' @ setdefault (kw_write_termination kw) [CHR 0x0D, CHR 0x0A])]
            @ evs"
    if "\<not> refused (script resource) \<and> \<not> refused (tl (script resource)) \<and>
        \<not> refused (tl (tl (script resource))) \<and>
        0.04 \<le> time_limit resource \<and> 0.04 \<le> sleep_limit resource"
    using that by (intro init_handshake) simp_all
  have ok: "fst (init port baud kw resource) = Inr () \<and>
      lastcommand (snd (init port baud kw resource)) = Some ''talk usual'' \<and>
      inbuf (connection (snd (init port baud kw resource))) = extra \<and>
      events (connection (snd (init port baud kw resource)))
        = events resource @ [Open port, SetBaudRate baud,
              WriteLine (''echo off'' @ setdefault (kw_write_termination kw) [CHR 0x0D, CHR 0x0A]),
              WriteLine (''prom off'' @ setdefault (kw_write_termination kw) [CHR 0x0D, CHR 0x0A]),
              Sleep 0.04, FlushInput,
              WriteLine (''talk usual'' @ setdefault (kw_write_termination kw) [CHR 0x0D, CHR 0x0A])]
            @ [ReadLine '''', Sleep d, ReadLine data, ReadLine ''[OK]'']"
    if h: "script resource
          = Answers r1 # Answers r2 # Answers ('''' # data # ''[OK]'' # extra) # later \<and>
        0.04 \<le> time_limit resource \<and> 0.04 \<le> sleep_limit resource \<and>
        query_delay resource = Finite d \<and>
        0 \<le> d \<and> d \<le> time_limit resource \<and> d \<le> sleep_limit resource"
  proof -
    from h have s: "script resource
          = Answers r1 # Answers r2 # Answers ('''' # data # ''[OK]'' # extra) # later"
      and l: "0.04 \<le> time_limit resource" "0.04 \<le> sleep_limit resource"
      and q: "query_delay resource = Finite d"
      and d: "0 \<le> d" "d \<le> time_limit resource" "d \<le> sleep_limit resource"
      by simp_all
    note r = init_success [OF s l q d, of port baud kw]
    from r(1) have "lastcommand (snd (init port baud kw resource)) = Some ''talk usual''"
      by (rule init_lastcommand)
    with r show ?thesis by simp
  qed
  show ?thesis
    unfolding Let_def wt
    using st ev hs ok by (simp add: setdefault_def)
qed

theorem init_sequence_witness:
  "fst (init ''ASRL1::INSTR'' 115200 no_kwargs
         (fresh_port (Finite 0) [''boot'']
            [Answers [''echo off'', ''[OK]''], Answers [''[ERR]''],
             Answers ['''', ''Usual'', ''[OK]'']]))
     = Inr () \<and>
   events (connection (snd (init ''ASRL1::INSTR'' 115200 no_kwargs
         (fresh_port (Finite 0) [''boot'']
            [Answers [''echo off'', ''[OK]''], Answers [''[ERR]''],
             Answers ['''', ''Usual'', ''[OK]'']]))))
     = [Open ''ASRL1::INSTR'', SetBaudRate 115200,
        WriteLine (''echo off'' @ [CHR 0x0D, CHR 0x0A]),
        WriteLine (''prom off'' @ [CHR 0x0D, CHR 0x0A]),
        Sleep 0.04, FlushInput,
        WriteLine (''talk usual'' @ [CHR 0x0D, CHR 0x0A]),
        ReadLine '''', Sleep 0, ReadLine ''Usual'', ReadLine ''[OK]''] \<and>
   preprocess_reply (snd (init ''ASRL1::INSTR'' 115200 no_kwargs
         (fresh_port (Finite 0) [''boot'']
            [Answers [''echo off'', ''[OK]''], Answers [''[ERR]''],
             Answers ['''', ''Usual'', ''[OK]'']])))
     = extract_value \<and>
   read_termination (connection (snd (init ''ASRL1::INSTR'' 115200 no_kwargs
         (fresh_port (Finite 0) [''boot'']
            [Answers [''echo off'', ''[OK]''], Answers [''[ERR]''],
             Answers ['''', ''Usual'', ''[OK]'']]))))
     = [CHR 0x0D, CHR 0x0A] \<and>
   baud_rate (connection (snd (init ''ASRL1::INSTR'' 115200 no_kwargs
         (fresh_port (Finite 0) [''boot'']
            [Answers [''echo off'', ''[OK]''], Answers [''[ERR]''],
             Answers ['''', ''Usual'', ''[OK]'']]))))
     = 115200 \<and>
   fst (init ''ASRL1::INSTR'' 9600
         \<lparr>kw_preprocess_reply = Some rev, kw_read_termination = Some [CHR 0x0D],
          kw_write_termination = Some [CHR 0x0A]\<rparr>
         (fresh_port (Finite 0.5) [] [Answers [], Answers [], Answers ['''', ''Usual'', ''[OK]'']]))
     = Inr () \<and>
   events (connection (snd (init ''ASRL1::INSTR'' 9600
         \<lparr>kw_preprocess_reply = Some rev, kw_read_termination = Some [CHR 0x0D],
          kw_write_termination = Some [CHR 0x0A]\<rparr>
         (fresh_port (Finite 0.5) [] [Answers [], Answers [], Answers ['''', ''Usual'', ''[OK]'']]))))
     = [Open ''ASRL1::INSTR'', SetBaudRate 9600,
        WriteLine (''echo off'' @ [CHR 0x0A]), WriteLine (''prom off'' @ [CHR 0x0A]),
        Sleep 0.04, FlushInput, WriteLine (''talk usual'' @ [CHR 0x0A]),
        ReadLine '''', Sleep 0.5, ReadLine ''Usual'', ReadLine ''[OK]''] \<and>
   preprocess_reply (snd (init ''ASRL1::INSTR'' 9600
         \<lparr>kw_preprocess_reply = Some rev, kw_read_termination = Some [CHR 0x0D],
          kw_write_termination = Some [CHR 0x0A]\<rparr>
         (fresh_port (Finite 0.5) [] [Answers [], Answers [], Answers ['''', ''Usual'', ''[OK]'']])))
     = rev \<and>
   read_termination (connection (snd (init ''ASRL1::INSTR'' 9600
         \<lparr>kw_preprocess_reply = Some rev, kw_read_termination = Some [CHR 0x0D],
          kw_write_termination = Some [CHR 0x0A]\<rparr>
         (fresh_port (Finite 0.5) [] [Answers [], Answers [], Answers ['''', ''Usual'', ''[OK]'']]))))
     = [CHR 0x0D] \<and>
   events (connection (snd (init ''ASRL1::INSTR'' 9600 no_kwargs
         (fresh_port (Finite 0) [''boot''] [Answers [''junk''], WriteError]))))
     = [Open ''ASRL1::INSTR'', SetBaudRate 9600, WriteLine (''echo off'' @ [CHR 0x0D, CHR 0x0A])]"
proof -
  let ?p1 = "fresh_port (Finite 0) [''boot'']
      [Answers [''echo off'', ''[OK]''], Answers [''[ERR]''], Answers ['''', ''Usual'', ''[OK]'']]"
  let ?kw = "\<lparr>kw_preprocess_reply = Some rev, kw_read_termination = Some [CHR 0x0D],
      kw_write_termination = Some [CHR 0x0A]\<rparr>"
  let ?p2 = "fresh_port (Finite 0.5) [] [Answers [], Answers [], Answers ['''', ''Usual'', ''[OK]'']]"
  let ?p3 = "fresh_port (Finite 0) [''boot''] [Answers [''junk''], WriteError]"
  have w1: "fst (init ''ASRL1::INSTR'' 115200 no_kwargs ?p1) = Inr () \<and>
      events (connection (snd (init ''ASRL1::INSTR'' 115200 no_kwargs ?p1)))
        = [Open ''ASRL1::INSTR'', SetBaudRate 115200,
           WriteLine (''echo off'' @ [CHR 0x0D, CHR 0x0A]),
           WriteLine (''prom off'' @ [CHR 0x0D, CHR 0x0A]),
           Sleep 0.04, FlushInput,
           WriteLine (''talk usual'' @ [CHR 0x0D, CHR 0x0A]),
           ReadLine '''', Sleep 0, ReadLine ''Usual'', ReadLine ''[OK]''] \<and>
      preprocess_reply (snd (init ''ASRL1::INSTR'' 115200 no_kwargs ?p1)) = extract_value \<and>
      read_termination (connection (snd (init ''ASRL1::INSTR'' 115200 no_kwargs ?p1)))
        = [CHR 0x0D, CHR 0x0A] \<and>
      baud_rate (connection (snd (init ''ASRL1::INSTR'' 115200 no_kwargs ?p1))) = 115200"
    using init_sequence [of "''ASRL1::INSTR''" 115200 no_kwargs ?p1
        "[''echo off'', ''[OK]'']" "[''[ERR]'']" "''Usual''" "[]" "[]" 0]
    by (simp add: fresh_port_def no_kwargs_def Let_def)
  have w2: "fst (init ''ASRL1::INSTR'' 9600 ?kw ?p2) = Inr () \<and>
      events (connection (snd (init ''ASRL1::INSTR'' 9600 ?kw ?p2)))
        = [Open ''ASRL1::INSTR'', SetBaudRate 9600,
           WriteLine (''echo off'' @ [CHR 0x0A]), WriteLine (''prom off'' @ [CHR 0x0A]),
           Sleep 0.04, FlushInput, WriteLine (''talk usual'' @ [CHR 0x0A]),
           ReadLine '''', Sleep 0.5, ReadLine ''Usual'', ReadLine ''[OK]''] \<and>
      preprocess_reply (snd (init ''ASRL1::INSTR'' 9600 ?kw ?p2)) = rev \<and>
      read_termination (connection (snd (init ''ASRL1::INSTR'' 9600 ?kw ?p2))) = [CHR 0x0D]"
    using init_sequence [of "''ASRL1::INSTR''" 9600 ?kw ?p2 "[]" "[]" "''Usual''" "[]" "[]" "0.5"]
    by (simp add: fresh_port_def Let_def)
  have w3: "events (connection (snd (init ''ASRL1::INSTR'' 9600 no_kwargs ?p3)))
        = [Open ''ASRL1::INSTR'', SetBaudRate 9600, WriteLine (''echo off'' @ [CHR 0x0D, CHR 0x0A])]"
    by (simp add: init_steps Let_def fresh_port_def refused_def answer_def configured_def
        no_kwargs_def setdefault_def)
  from w1 w2 w3 show ?thesis by simp
qed

end
